theory Spec2Isabelle
  imports Complex_Main
begin

section \<open>Python values shared by the three scripts\<close>

text \<open>
  The repository holds three scripts with the same per-wallet pipeline:
  \<^verbatim>\<open>meteora.py\<close> (command line), \<^verbatim>\<open>meteora-telegram-bot.py\<close> and
  \<^verbatim>\<open>meteora-telegram-bot-v3.py\<close> (chat bots).  Definitions without a suffix embed
  \<^verbatim>\<open>meteora.py\<close>; the suffix \<open>_v3\<close> marks the method of the same name of
  \<^verbatim>\<open>WalletProcessor\<close> in \<^verbatim>\<open>meteora-telegram-bot-v3.py\<close>.

  Every exception the code can meet is a value of \<open>py_error\<close>; all of them are
  subclasses of Python's \<^verbatim>\<open>Exception\<close>, so \<^verbatim>\<open>except Exception\<close> catches each.
  \<open>RequestException\<close> stands for \<^verbatim>\<open>requests.exceptions.RequestException\<close> and
  its subclasses (HTTP status errors, timeouts, connection errors).
\<close>

datatype py_error =
    RequestException | ValueError | TypeError | KeyError | IndexError
  | AttributeError | NameError | OverflowError | ZeroDivisionError | RPCException

text \<open>Sequencing of steps that may raise: the first exception ends the sequence.\<close>

fun bind_err :: "py_error + 'a \<Rightarrow> ('a \<Rightarrow> py_error + 'b) \<Rightarrow> py_error + 'b" where
  "bind_err (Inl e) f = Inl e"
| "bind_err (Inr x) f = f x"

type_synonym pubkey = string
type_synonym signature = string

definition METEORA_PROGRAM_ID :: pubkey where
  "METEORA_PROGRAM_ID = ''LBUZKhRxPF3XUpBCjp4YzTKgLccjZhTSDM9YuVaPwxo''"

text \<open>
  With the \<^verbatim>\<open>jsonParsed\<close> encoding an instruction of a transaction message is
  either a \<^verbatim>\<open>ParsedInstruction\<close> or a \<^verbatim>\<open>UiPartiallyDecodedInstruction\<close>;
  both carry a program id, only the second an account list.
\<close>

datatype instruction =
    ParsedInstruction (program_id: pubkey)
  | UiPartiallyDecodedInstruction (program_id: pubkey) (accounts: "pubkey list")

text \<open>
  \<^verbatim>\<open>client.get_transaction(sig, encoding="jsonParsed").value\<close> followed by
  \<^verbatim>\<open>tx.transaction.transaction.message.instructions\<close>: the call raises
  (\<open>Inl\<close>), or yields no transaction (\<open>Inr None\<close>), or the instruction list.
  The answer of the node to a signature is taken as fixed during one stage.
\<close>

type_synonym tx_response = "py_error + instruction list option"
type_synonym rpc_client = "signature \<Rightarrow> tx_response"

text \<open>One entry of \<^verbatim>\<open>get_signatures_for_address(...).value\<close>.\<close>

record signature_info =
  signature :: signature
  block_time :: "int option"

section \<open>Python floats\<close>

text \<open>
  A Python \<^verbatim>\<open>float\<close> is an IEEE 754 binary64 number.  A finite one is kept as the
  rational it denotes; the two zeros are not told apart (no code path here divides by a
  float or prints a sign of zero that a claim reads).  \<open>round_double\<close> rounds a
  rational to the nearest binary64 value, ties to even, subnormals included, with
  unbounded exponent upwards; \<open>to_float\<close> then turns a result beyond the largest
  finite value into an infinity.
\<close>

datatype pyfloat = Finite rat | PosInf | NegInf | NaN

definition round_half_even :: "rat \<Rightarrow> int" where
  "round_half_even x =
     (let f = \<lfloor>x\<rfloor>; d = x - of_int f
      in if d < 1 / 2 then f
         else if 1 / 2 < d then f + 1
         else if even f then f else f + 1)"

text \<open>
  The binary exponent of a positive rational, \<open>\<lfloor>log\<^sub>2 x\<rfloor>\<close>, clamped to the range
  \<open>-1022 .. 1024\<close> of binary64 (below \<open>-1022\<close> lie the subnormal numbers, which
  share the spacing \<open>2\<^sup>-\<^sup>1\<^sup>0\<^sup>7\<^sup>4\<close>).
\<close>

fun exponent_up :: "nat \<Rightarrow> rat \<Rightarrow> int" where
  "exponent_up 0 x = 0"
| "exponent_up (Suc n) x = (if x < 2 then 0 else 1 + exponent_up n (x / 2))"

fun exponent_down :: "nat \<Rightarrow> rat \<Rightarrow> int" where
  "exponent_down 0 x = 0"
| "exponent_down (Suc n) x = (if 1 \<le> x then 0 else exponent_down n (2 * x) - 1)"

definition double_exponent :: "rat \<Rightarrow> int" where
  "double_exponent x = (if 1 \<le> x then exponent_up 1024 x else exponent_down 1022 x)"

definition round_double :: "rat \<Rightarrow> rat" where
  "round_double x =
     (if x = 0 then 0
      else (let a = \<bar>x\<bar>;
                u = power_int 2 (double_exponent a - 52);
                r = of_int (round_half_even (a / u)) * u
            in if 0 < x then r else - r))"

text \<open>The magnitude \<open>2\<^sup>1\<^sup>0\<^sup>2\<^sup>4\<close>, written out: a rounded value that reaches it is not finite.\<close>

definition DBL_OVERFLOW :: rat where
  "DBL_OVERFLOW = 179769313486231590772930519078902473361797697894230657273430081157732675805500963132708477322407536021120113879871393357658789768814416622492847430639474124377767893424865485276302219601246094119453082952085005768838150682342462881473913110540827237163350510684586298239947245938479716304835356329624224137216"

definition to_float :: "rat \<Rightarrow> pyfloat" where
  "to_float x =
     (let r = round_double x
      in if DBL_OVERFLOW \<le> r then PosInf else if r \<le> - DBL_OVERFLOW then NegInf else Finite r)"

text \<open>\<^verbatim>\<open>x + y\<close> on floats.\<close>

fun fadd :: "pyfloat \<Rightarrow> pyfloat \<Rightarrow> pyfloat" where
  "fadd (Finite a) (Finite b) = to_float (a + b)"
| "fadd NaN y = NaN"
| "fadd x NaN = NaN"
| "fadd PosInf NegInf = NaN"
| "fadd NegInf PosInf = NaN"
| "fadd PosInf y = PosInf"
| "fadd NegInf y = NegInf"
| "fadd x PosInf = PosInf"
| "fadd x NegInf = NegInf"

text \<open>\<^verbatim>\<open>x * y\<close> on floats.\<close>

fun fmul :: "pyfloat \<Rightarrow> pyfloat \<Rightarrow> pyfloat" where
  "fmul (Finite a) (Finite b) = to_float (a * b)"
| "fmul NaN y = NaN"
| "fmul x NaN = NaN"
| "fmul PosInf (Finite b) = (if b = 0 then NaN else if 0 < b then PosInf else NegInf)"
| "fmul NegInf (Finite b) = (if b = 0 then NaN else if 0 < b then NegInf else PosInf)"
| "fmul (Finite a) PosInf = (if a = 0 then NaN else if 0 < a then PosInf else NegInf)"
| "fmul (Finite a) NegInf = (if a = 0 then NaN else if 0 < a then NegInf else PosInf)"
| "fmul PosInf PosInf = PosInf"
| "fmul NegInf NegInf = PosInf"
| "fmul PosInf NegInf = NegInf"
| "fmul NegInf PosInf = NegInf"

text \<open>\<^verbatim>\<open>x >= y\<close> on floats: false as soon as one side is not a number.\<close>

fun fge :: "pyfloat \<Rightarrow> pyfloat \<Rightarrow> bool" where
  "fge (Finite a) (Finite b) = (b \<le> a)"
| "fge NaN y = False"
| "fge x NaN = False"
| "fge PosInf y = True"
| "fge x NegInf = True"
| "fge NegInf y = False"
| "fge x PosInf = False"

text \<open>
  \<^verbatim>\<open>a / b\<close> on Python integers: the correctly rounded quotient;
  \<^verbatim>\<open>ZeroDivisionError\<close> for a zero divisor, \<^verbatim>\<open>OverflowError\<close> when the
  quotient is too large for a float.
\<close>

definition int_truediv :: "int \<Rightarrow> int \<Rightarrow> py_error + pyfloat" where
  "int_truediv a b =
     (if b = 0 then Inl ZeroDivisionError
      else (case to_float (of_int a / of_int b) of
              Finite r \<Rightarrow> Inr (Finite r)
            | _ \<Rightarrow> Inl OverflowError))"

text \<open>\<^verbatim>\<open>int(x)\<close> on a float truncates towards zero.\<close>

fun int_of_float :: "pyfloat \<Rightarrow> py_error + int" where
  "int_of_float (Finite r) = Inr (if 0 \<le> r then \<lfloor>r\<rfloor> else \<lceil>r\<rceil>)"
| "int_of_float NaN = Inl ValueError"
| "int_of_float PosInf = Inl OverflowError"
| "int_of_float NegInf = Inl OverflowError"

text \<open>\<^verbatim>\<open>float(n)\<close> on a Python integer.\<close>

definition float_of_int :: "int \<Rightarrow> py_error + pyfloat" where
  "float_of_int n =
     (case to_float (of_int n) of
        Finite r \<Rightarrow> Inr (Finite r)
      | _ \<Rightarrow> Inl OverflowError)"

section \<open>Decoded JSON and the Python operations the scripts apply to it\<close>

text \<open>
  The value of \<^verbatim>\<open>response.json()\<close>.  A \<^verbatim>\<open>dict\<close> is an association list whose
  keys are distinct (a Python \<^verbatim>\<open>dict\<close> holds a key once); \<open>map_of\<close> looks a key up.
\<close>

datatype json =
    JNull | JBool bool | JInt int | JFloat pyfloat | JStr string
  | JArr "json list" | JObj "(string \<times> json) list"

fun starts_with :: "string \<Rightarrow> string \<Rightarrow> bool" where
  "starts_with [] s = True"
| "starts_with (c # cs) [] = False"
| "starts_with (c # cs) (d # ds) = (c = d \<and> starts_with cs ds)"

text \<open>\<^verbatim>\<open>k in s\<close> on two strings.\<close>

fun contains_str :: "string \<Rightarrow> string \<Rightarrow> bool" where
  "contains_str k [] = (k = [])"
| "contains_str k (c # s) = (starts_with k (c # s) \<or> contains_str k s)"

text \<open>
  \<^verbatim>\<open>"k" in x\<close>: key membership on a \<^verbatim>\<open>dict\<close>, substring test on a
  \<^verbatim>\<open>str\<close>, element test on a \<^verbatim>\<open>list\<close>, \<^verbatim>\<open>TypeError\<close> on \<^verbatim>\<open>None\<close>,
  booleans and numbers.
\<close>

fun py_in :: "string \<Rightarrow> json \<Rightarrow> py_error + bool" where
  "py_in k (JObj kvs) = Inr (map_of kvs k \<noteq> None)"
| "py_in k (JStr s) = Inr (contains_str k s)"
| "py_in k (JArr xs) = Inr (JStr k \<in> set xs)"
| "py_in k JNull = Inl TypeError"
| "py_in k (JBool b) = Inl TypeError"
| "py_in k (JInt n) = Inl TypeError"
| "py_in k (JFloat f) = Inl TypeError"

text \<open>\<^verbatim>\<open>x["k"]\<close> with a string key.\<close>

fun py_getitem :: "json \<Rightarrow> string \<Rightarrow> py_error + json" where
  "py_getitem (JObj kvs) k = (case map_of kvs k of None \<Rightarrow> Inl KeyError | Some v \<Rightarrow> Inr v)"
| "py_getitem x k = Inl TypeError"

text \<open>\<^verbatim>\<open>x.get("k", default)\<close>: only a \<^verbatim>\<open>dict\<close> has the method.\<close>

fun py_get :: "json \<Rightarrow> string \<Rightarrow> json \<Rightarrow> py_error + json" where
  "py_get (JObj kvs) k d = Inr (case map_of kvs k of None \<Rightarrow> d | Some v \<Rightarrow> v)"
| "py_get x k d = Inl AttributeError"

text \<open>\<^verbatim>\<open>x.keys()\<close>, called for a log line only.\<close>

fun py_keys :: "json \<Rightarrow> py_error + string list" where
  "py_keys (JObj kvs) = Inr (map fst kvs)"
| "py_keys x = Inl AttributeError"

text \<open>
  \<^verbatim>\<open>for v in x\<close>: the elements of a \<^verbatim>\<open>list\<close>, the keys of a \<^verbatim>\<open>dict\<close>,
  the characters of a \<^verbatim>\<open>str\<close>.
\<close>

fun py_iter :: "json \<Rightarrow> py_error + json list" where
  "py_iter (JArr xs) = Inr xs"
| "py_iter (JObj kvs) = Inr (map (\<lambda>kv. JStr (fst kv)) kvs)"
| "py_iter (JStr s) = Inr (map (\<lambda>c. JStr [c]) s)"
| "py_iter x = Inl TypeError"

text \<open>\<^verbatim>\<open>len(x)\<close>.\<close>

fun py_len :: "json \<Rightarrow> py_error + nat" where
  "py_len (JArr xs) = Inr (length xs)"
| "py_len (JObj kvs) = Inr (length kvs)"
| "py_len (JStr s) = Inr (length s)"
| "py_len x = Inl TypeError"

text \<open>\<^verbatim>\<open>x[0]\<close>: a \<^verbatim>\<open>dict\<close> decoded from JSON has string keys only.\<close>

fun py_first :: "json \<Rightarrow> py_error + json" where
  "py_first (JArr []) = Inl IndexError"
| "py_first (JArr (x # xs)) = Inr x"
| "py_first (JStr []) = Inl IndexError"
| "py_first (JStr (c # s)) = Inr (JStr [c])"
| "py_first (JObj kvs) = Inl KeyError"
| "py_first x = Inl TypeError"

text \<open>
  \<^verbatim>\<open>float(x)\<close>.  The conversion of a \<^verbatim>\<open>str\<close> is Python's own parser, taken
  as the parameter \<open>float_of_str\<close>.
\<close>

fun py_float :: "(string \<Rightarrow> py_error + pyfloat) \<Rightarrow> json \<Rightarrow> py_error + pyfloat" where
  "py_float float_of_str (JFloat f) = Inr f"
| "py_float float_of_str (JInt n) = float_of_int n"
| "py_float float_of_str (JBool b) = Inr (Finite (if b then 1 else 0))"
| "py_float float_of_str (JStr s) = float_of_str s"
| "py_float float_of_str x = Inl TypeError"

section \<open>Calendar dates of Python's datetime\<close>

text \<open>
  The part of the standard library's \<^verbatim>\<open>datetime\<close> that the scripts call, after
  CPython's \<^verbatim>\<open>Lib/_pydatetime.py\<close>: proleptic Gregorian ordinals (day 1 is
  1 January of year 1), \<^verbatim>\<open>_ord2ymd\<close>, \<^verbatim>\<open>_ymd2ord\<close>, \<^verbatim>\<open>isocalendar\<close>.
  Python's \<open>//\<close> and \<open>%\<close> are \<open>div\<close> and \<open>mod\<close> on \<open>int\<close>.  Only the
  date fields are kept: no code path reads the time of day.
\<close>

record date =
  year :: int
  month :: int
  day :: int

definition is_leap :: "int \<Rightarrow> bool" where
  "is_leap y = (y mod 4 = 0 \<and> (y mod 100 \<noteq> 0 \<or> y mod 400 = 0))"

definition days_before_year :: "int \<Rightarrow> int" where
  "days_before_year y = (y - 1) * 365 + (y - 1) div 4 - (y - 1) div 100 + (y - 1) div 400"

definition DAYS_IN_MONTH :: "int list" where
  "DAYS_IN_MONTH = [-1, 31, 28, 31, 30, 31, 30, 31, 31, 30, 31, 30, 31]"

definition DAYS_BEFORE_MONTH :: "int list" where
  "DAYS_BEFORE_MONTH = [-1, 0, 31, 59, 90, 120, 151, 181, 212, 243, 273, 304, 334]"

definition days_before_month :: "int \<Rightarrow> int \<Rightarrow> int" where
  "days_before_month y m =
     DAYS_BEFORE_MONTH ! nat m + (if 2 < m \<and> is_leap y then 1 else 0)"

definition ymd2ord :: "int \<Rightarrow> int \<Rightarrow> int \<Rightarrow> int" where
  "ymd2ord y m d = days_before_year y + days_before_month y m + d"

definition ord2ymd :: "int \<Rightarrow> date" where
  "ord2ymd n0 =
     (let n = n0 - 1;
          n400 = n div 146097; n = n mod 146097;
          y = n400 * 400 + 1;
          n100 = n div 36524; n = n mod 36524;
          n4 = n div 1461; n = n mod 1461;
          n1 = n div 365; n = n mod 365;
          y = y + n100 * 100 + n4 * 4 + n1
      in if n1 = 4 \<or> n100 = 4 then \<lparr>year = y - 1, month = 12, day = 31\<rparr>
         else (let leapyear = (n1 = 3 \<and> (n4 \<noteq> 24 \<or> n100 = 3));
                   m = (n + 50) div 32;
                   preceding = DAYS_BEFORE_MONTH ! nat m + (if 2 < m \<and> leapyear then 1 else 0)
               in if n < preceding
                  then (let m = m - 1;
                            preceding = preceding -
                              (DAYS_IN_MONTH ! nat m + (if m = 2 \<and> leapyear then 1 else 0))
                        in \<lparr>year = y, month = m, day = n - preceding + 1\<rparr>)
                  else \<lparr>year = y, month = m, day = n - preceding + 1\<rparr>))"

text \<open>
  \<^verbatim>\<open>datetime.utcfromtimestamp(ts)\<close> for an integer number of seconds: day
  \<open>ts div 86400\<close> after 1 January 1970 (ordinal 719163).  The class holds the years
  1 to 9999 only (ordinals 1 to 3652059); outside, CPython raises \<^verbatim>\<open>ValueError\<close>
  (or, for values far out, \<^verbatim>\<open>OverflowError\<close> or \<^verbatim>\<open>OSError\<close>, which every
  handler here treats alike).  \<^verbatim>\<open>None\<close> is no number: \<^verbatim>\<open>TypeError\<close>.
  The model follows CPython on a POSIX system.
\<close>

definition MAXORDINAL :: int where
  "MAXORDINAL = 3652059"

fun utcfromtimestamp :: "int option \<Rightarrow> py_error + date" where
  "utcfromtimestamp None = Inl TypeError"
| "utcfromtimestamp (Some ts) =
     (let n = ts div 86400 + 719163
      in if n < 1 \<or> MAXORDINAL < n then Inl ValueError else Inr (ord2ymd n))"

definition isoweek1monday :: "int \<Rightarrow> int" where
  "isoweek1monday y =
     (let firstday = ymd2ord y 1 1;
          firstweekday = (firstday + 6) mod 7;
          week1monday = firstday - firstweekday
      in if 3 < firstweekday then week1monday + 7 else week1monday)"

text \<open>\<^verbatim>\<open>date.isocalendar()\<close>: ISO year, ISO week number, ISO weekday.\<close>

definition isocalendar :: "date \<Rightarrow> int \<times> int \<times> int" where
  "isocalendar dt =
     (let y = year dt;
          week1monday = isoweek1monday y;
          today = ymd2ord (year dt) (month dt) (day dt);
          wk = (today - week1monday) div 7;
          dy = (today - week1monday) mod 7
      in if wk < 0
         then (let y = y - 1;
                   week1monday = isoweek1monday y;
                   wk = (today - week1monday) div 7;
                   dy = (today - week1monday) mod 7
               in (y, wk + 1, dy + 1))
         else if 52 \<le> wk \<and> isoweek1monday (y + 1) \<le> today
         then (y + 1, 1, dy + 1)
         else (y, wk + 1, dy + 1))"

text \<open>
  \<^verbatim>\<open>strftime('%d.%m.%Y')\<close>.  CPython hands the format to the C library's
  \<^verbatim>\<open>strftime\<close>: \<^verbatim>\<open>%d\<close> and \<^verbatim>\<open>%m\<close> are the day and the month with two
  digits, \<^verbatim>\<open>%Y\<close> is the year as a decimal number.  The model follows glibc, which
  writes the year without leading zeros (year 999 is "999", year 1 is "1"); from the
  year 1000 on the year has its four digits on every platform.
\<close>

definition digit_char :: "int \<Rightarrow> char" where
  "digit_char n = ''0123456789'' ! nat (n mod 10)"

fun show_nat :: "nat \<Rightarrow> string" where
  "show_nat n =
     (if n < 10 then [digit_char (int n)]
      else show_nat (n div 10) @ [digit_char (int n)])"

definition strftime_dmY :: "date \<Rightarrow> string" where
  "strftime_dmY dt =
     [digit_char (day dt div 10), digit_char (day dt), CHR ''.'',
      digit_char (month dt div 10), digit_char (month dt), CHR ''.'']
     @ show_nat (nat (year dt))"

section \<open>TransactionHistoryFetcher\<close>

text \<open>Truth value of \<^verbatim>\<open>sig.block_time\<close>: \<^verbatim>\<open>None\<close> and \<^verbatim>\<open>0\<close> are false.\<close>

fun truthy_time :: "int option \<Rightarrow> bool" where
  "truthy_time None = False"
| "truthy_time (Some t) = (t \<noteq> 0)"

text \<open>
  \<^verbatim>\<open>get_transactions\<close> of \<^verbatim>\<open>meteora.py\<close>.  A record is the pair
  \<^verbatim>\<open>(sig.signature, sig.block_time)\<close>; the second component keeps Python's
  optional type.
\<close>

definition get_transactions ::
  "(pubkey \<Rightarrow> py_error + signature_info list) \<Rightarrow> pubkey \<Rightarrow> (signature \<times> int option) list" where
  "get_transactions get_signatures_for_address wallet =
     (case get_signatures_for_address wallet of
        Inl e \<Rightarrow> []
      | Inr val \<Rightarrow> map (\<lambda>sig. (signature sig, block_time sig))
                     (filter (\<lambda>sig. truthy_time (block_time sig)) val))"

text \<open>
  \<^verbatim>\<open>WalletProcessor.get_transactions\<close>: the address is parsed inside the
  \<^verbatim>\<open>try\<close>, and \<^verbatim>\<open>self.transactions\<close> keeps its initial \<^verbatim>\<open>[]\<close> on any error.
\<close>

definition get_transactions_v3 ::
  "(string \<Rightarrow> py_error + pubkey) \<Rightarrow> (pubkey \<Rightarrow> py_error + signature_info list) \<Rightarrow> string
     \<Rightarrow> (signature \<times> int option) list" where
  "get_transactions_v3 pubkey_from_string get_signatures_for_address wallet_address =
     (case pubkey_from_string wallet_address of
        Inl e \<Rightarrow> []
      | Inr wallet_pubkey \<Rightarrow>
          (case get_signatures_for_address wallet_pubkey of
             Inl e \<Rightarrow> []
           | Inr val \<Rightarrow> map (\<lambda>sig. (signature sig, block_time sig))
                          (filter (\<lambda>sig. truthy_time (block_time sig)) val)))"

section \<open>ProtocolTransactionFilter\<close>

text \<open>
  The inner \<^verbatim>\<open>for instr in ...instructions\<close> loop of
  \<^verbatim>\<open>filter_meteora_transactions\<close>: true when the loop reaches the
  \<^verbatim>\<open>append\<close> and \<^verbatim>\<open>break\<close>.
\<close>

fun has_meteora_instruction :: "instruction list \<Rightarrow> bool" where
  "has_meteora_instruction [] = False"
| "has_meteora_instruction (ParsedInstruction p # rest) = has_meteora_instruction rest"
| "has_meteora_instruction (UiPartiallyDecodedInstruction p accs # rest) =
     (if p = METEORA_PROGRAM_ID then True else has_meteora_instruction rest)"

text \<open>
  The outer loop, with the list \<^verbatim>\<open>meteora_txs\<close> as accumulator.  The
  \<^verbatim>\<open>try\<close> around one record catches every exception and goes on with the next
  record.  The bot's method runs the same loop (plus progress reports).
\<close>

fun filter_loop ::
  "rpc_client \<Rightarrow> (signature \<times> 't) list \<Rightarrow> (signature \<times> 't) list \<Rightarrow> (signature \<times> 't) list" where
  "filter_loop client [] meteora_txs = meteora_txs"
| "filter_loop client ((sig, timestamp) # rest) meteora_txs =
     (case client sig of
        Inl e \<Rightarrow> filter_loop client rest meteora_txs
      | Inr None \<Rightarrow> filter_loop client rest meteora_txs
      | Inr (Some instrs) \<Rightarrow>
          filter_loop client rest
            (if has_meteora_instruction instrs then meteora_txs @ [(sig, timestamp)]
             else meteora_txs))"

definition filter_meteora_transactions ::
  "rpc_client \<Rightarrow> (signature \<times> 't) list \<Rightarrow> (signature \<times> 't) list" where
  "filter_meteora_transactions client transactions = filter_loop client transactions []"

section \<open>PoolAddressExtractor\<close>

text \<open>
  The instruction loop of \<^verbatim>\<open>extract_pool_address\<close> (\<^verbatim>\<open>meteora.py\<close>):
  \<^verbatim>\<open>return str(instr.accounts[2])\<close> at a partially decoded instruction of the
  target program, and \<^verbatim>\<open>except IndexError: continue\<close> when the account list
  has fewer than three entries, which goes on with the next instruction.
\<close>

fun scan_pool_address :: "instruction list \<Rightarrow> pubkey option" where
  "scan_pool_address [] = None"
| "scan_pool_address (ParsedInstruction p # rest) = scan_pool_address rest"
| "scan_pool_address (UiPartiallyDecodedInstruction p accs # rest) =
     (if p = METEORA_PROGRAM_ID
      then (if 2 < length accs then Some (accs ! 2) else scan_pool_address rest)
      else scan_pool_address rest)"

definition extract_pool_address :: "rpc_client \<Rightarrow> signature \<Rightarrow> pubkey option" where
  "extract_pool_address client sig =
     (case client sig of
        Inl e \<Rightarrow> None
      | Inr None \<Rightarrow> None
      | Inr (Some instrs) \<Rightarrow> scan_pool_address instrs)"

text \<open>
  A Python \<^verbatim>\<open>set\<close> of strings that is later turned into a list is kept as a list
  without duplicates, in the order of first insertion.  CPython's order depends on the
  hash seed of the process; the theorems below speak of the elements, not of the order.
\<close>

definition set_add :: "'a \<Rightarrow> 'a list \<Rightarrow> 'a list" where
  "set_add x s = (if x \<in> set s then s else s @ [x])"

text \<open>
  \<^verbatim>\<open>list(set(address for sig, _ in meteora_transactions
       if (address := extract_pool_address(sig)) is not None))\<close> of \<^verbatim>\<open>process_wallet\<close>.
\<close>

fun pool_address_loop :: "rpc_client \<Rightarrow> (signature \<times> 't) list \<Rightarrow> pubkey list \<Rightarrow> pubkey list" where
  "pool_address_loop client [] s = s"
| "pool_address_loop client ((sig, ts) # rest) s =
     (case extract_pool_address client sig of
        None \<Rightarrow> pool_address_loop client rest s
      | Some address \<Rightarrow> pool_address_loop client rest (set_add address s))"

definition pool_addresses :: "rpc_client \<Rightarrow> (signature \<times> 't) list \<Rightarrow> pubkey list" where
  "pool_addresses client meteora_transactions = pool_address_loop client meteora_transactions []"

text \<open>
  \<^verbatim>\<open>WalletProcessor.extract_pool_addresses\<close>: the instruction loop adds to
  \<^verbatim>\<open>unique_pool_addresses\<close> and neither returns nor breaks, so it visits every
  instruction of the transaction.
\<close>

fun scan_pool_addresses_v3 :: "instruction list \<Rightarrow> pubkey list \<Rightarrow> pubkey list" where
  "scan_pool_addresses_v3 [] s = s"
| "scan_pool_addresses_v3 (ParsedInstruction p # rest) s = scan_pool_addresses_v3 rest s"
| "scan_pool_addresses_v3 (UiPartiallyDecodedInstruction p accs # rest) s =
     (if p = METEORA_PROGRAM_ID
      then (if 2 < length accs then scan_pool_addresses_v3 rest (set_add (accs ! 2) s)
            else scan_pool_addresses_v3 rest s)
      else scan_pool_addresses_v3 rest s)"

fun extract_loop_v3 :: "rpc_client \<Rightarrow> (signature \<times> 't) list \<Rightarrow> pubkey list \<Rightarrow> pubkey list" where
  "extract_loop_v3 client [] s = s"
| "extract_loop_v3 client ((sig, ts) # rest) s =
     (case client sig of
        Inl e \<Rightarrow> extract_loop_v3 client rest s
      | Inr None \<Rightarrow> extract_loop_v3 client rest s
      | Inr (Some instrs) \<Rightarrow> extract_loop_v3 client rest (scan_pool_addresses_v3 instrs s))"

definition extract_pool_addresses_v3 :: "rpc_client \<Rightarrow> (signature \<times> 't) list \<Rightarrow> pubkey list" where
  "extract_pool_addresses_v3 client meteora_transactions =
     extract_loop_v3 client meteora_transactions []"

section \<open>ActivityMetricsCalculator\<close>

text \<open>
  \<^verbatim>\<open>min(timestamps)\<close> on a non-empty list: every comparison with \<^verbatim>\<open>None\<close>
  raises \<^verbatim>\<open>TypeError\<close>; a single element is returned without a comparison.
\<close>

fun min_loop :: "int option \<Rightarrow> int option list \<Rightarrow> py_error + int option" where
  "min_loop cur [] = Inr cur"
| "min_loop (Some a) (Some b # rest) = min_loop (Some (if b < a then b else a)) rest"
| "min_loop cur (x # rest) = Inl TypeError"

text \<open>
  Lines 233 to 235 of \<^verbatim>\<open>process_wallet\<close>, the body of the bot's
  \<^verbatim>\<open>process_timestamps\<close>: the new value of \<^verbatim>\<open>result['first_tx']\<close>, if any.
\<close>

fun first_tx_date :: "int option list \<Rightarrow> py_error + string option" where
  "first_tx_date [] = Inr None"
| "first_tx_date (t # rest) =
     bind_err (min_loop t rest) (\<lambda>first_tx_ts.
     bind_err (utcfromtimestamp first_tx_ts) (\<lambda>dt.
     Inr (Some (strftime_dmY dt))))"

text \<open>
  The loop of \<^verbatim>\<open>calculate_activity_metrics\<close>, with the two Python sets of pairs as
  accumulators, and the function itself.
\<close>

fun activity_loop ::
  "int option list \<Rightarrow> (int \<times> int) set \<Rightarrow> (int \<times> int) set
     \<Rightarrow> py_error + (int \<times> int) set \<times> (int \<times> int) set" where
  "activity_loop [] weeks months = Inr (weeks, months)"
| "activity_loop (ts # rest) weeks months =
     (case utcfromtimestamp ts of
        Inl e \<Rightarrow> Inl e
      | Inr dt \<Rightarrow>
          (case isocalendar dt of
             (y, week, wd) \<Rightarrow>
               activity_loop rest (insert (y, week) weeks)
                 (insert (year dt, month dt) months)))"

definition calculate_activity_metrics :: "int option list \<Rightarrow> py_error + nat \<times> nat" where
  "calculate_activity_metrics timestamps =
     (case activity_loop timestamps {} {} of
        Inl e \<Rightarrow> Inl e
      | Inr (weeks, months) \<Rightarrow> Inr (card weeks, card months))"

section \<open>AssetOwnershipChecker of meteora.py\<close>

definition CNFT_MINT :: string where
  "CNFT_MINT = ''Cw4DD54N14aNNaRdhBCq7W9QQh8Bat812VuFbXbLC8bH''"

text \<open>
  \<^verbatim>\<open>any(item.get("id") == target_mint for item in ...)\<close>: an item that is no
  \<^verbatim>\<open>dict\<close> raises when it is reached.
\<close>

fun any_id :: "json list \<Rightarrow> py_error + bool" where
  "any_id [] = Inr False"
| "any_id (item # rest) =
     bind_err (py_get item ''id'' JNull) (\<lambda>v.
     if v = JStr CNFT_MINT then Inr True else any_id rest)"

text \<open>
  \<^verbatim>\<open>check_cnft\<close> of \<^verbatim>\<open>meteora.py\<close>.  \<open>post\<close> is the HTTP request with
  \<^verbatim>\<open>raise_for_status()\<close> and \<^verbatim>\<open>json()\<close>.  Every exception gives \<^verbatim>\<open>False\<close>.
\<close>

definition check_cnft :: "(string \<Rightarrow> py_error + json) \<Rightarrow> string \<Rightarrow> bool" where
  "check_cnft post wallet_address =
     (case bind_err (post wallet_address) (\<lambda>data.
           bind_err (py_get data ''result'' (JObj [])) (\<lambda>res.
           bind_err (py_get res ''items'' (JArr [])) (\<lambda>items.
           bind_err (py_iter items) any_id))) of
        Inl e \<Rightarrow> False
      | Inr b \<Rightarrow> b)"

section \<open>FeeAggregator\<close>

text \<open>The literals \<^verbatim>\<open>0.0\<close> and \<^verbatim>\<open>0.01\<close>.\<close>

definition float_zero :: pyfloat where
  "float_zero = Finite 0"

definition fee_threshold :: pyfloat where
  "fee_threshold = to_float (1 / 100)"

text \<open>
  \<^verbatim>\<open>get_pool_fees\<close>: \<open>get_earning\<close> is the HTTP request to the earnings
  endpoint with \<^verbatim>\<open>raise_for_status()\<close> and \<^verbatim>\<open>json()\<close>.
\<close>

definition get_pool_fees ::
  "(string \<Rightarrow> string \<Rightarrow> py_error + json) \<Rightarrow> (string \<Rightarrow> py_error + pyfloat)
     \<Rightarrow> string \<Rightarrow> string \<Rightarrow> pyfloat" where
  "get_pool_fees get_earning float_of_str wallet pool =
     (case bind_err (get_earning wallet pool) (\<lambda>data.
           bind_err (py_get data ''total_fee_usd_claimed'' (JFloat float_zero)) (\<lambda>v.
           py_float float_of_str v)) of
        Inl e \<Rightarrow> float_zero
      | Inr fees \<Rightarrow> fees)"

section \<open>WalletMetrics and the pipeline of meteora.py\<close>

record wallet_metrics =
  wallet :: string
  total_fees :: pyfloat
  pools_with_fees :: int
  first_tx :: string
  active_weeks :: nat
  active_months :: nat
  cnft :: bool
  blacklist :: bool

text \<open>The record every pipeline starts from.\<close>

definition initial_result :: "string \<Rightarrow> wallet_metrics" where
  "initial_result wallet_address =
     \<lparr>wallet = wallet_address, total_fees = float_zero, pools_with_fees = 0,
      first_tx = ''N/A'', active_weeks = 0, active_months = 0,
      cnft = False, blacklist = False\<rparr>"

text \<open>
  The external collaborators of one pipeline run: the asset search (for the bot, by
  attempt number), the address parser \<^verbatim>\<open>Pubkey.from_string\<close>, the signature listing,
  the transaction fetch of the filter stage and of the extraction stage, the earnings
  lookup, Python's \<^verbatim>\<open>float\<close> on strings, and \<^verbatim>\<open>str(x).lower()\<close> on decoded JSON.
\<close>

record world =
  post_assets :: "string \<Rightarrow> py_error + json"
  post_assets_v3 :: "nat \<Rightarrow> string \<Rightarrow> py_error + json"
  pubkey_from_string :: "string \<Rightarrow> py_error + pubkey"
  get_signatures_for_address :: "pubkey \<Rightarrow> py_error + signature_info list"
  get_transaction_filter :: rpc_client
  get_transaction_extract :: rpc_client
  get_earning :: "string \<Rightarrow> string \<Rightarrow> py_error + json"
  float_of_str :: "string \<Rightarrow> py_error + pyfloat"
  str_lower :: "json \<Rightarrow> string"

text \<open>The loop over \<^verbatim>\<open>pool_addresses\<close> at the end of \<^verbatim>\<open>process_wallet\<close>.\<close>

fun fee_loop :: "world \<Rightarrow> string \<Rightarrow> string list \<Rightarrow> wallet_metrics \<Rightarrow> wallet_metrics" where
  "fee_loop w wallet_address [] result = result"
| "fee_loop w wallet_address (pool # rest) result =
     (let fees = get_pool_fees (get_earning w) (float_of_str w) wallet_address pool;
          result = result\<lparr>total_fees := fadd (total_fees result) fees\<rparr>;
          result = (if fge fees fee_threshold
                    then result\<lparr>pools_with_fees := pools_with_fees result + 1\<rparr>
                    else result)
      in fee_loop w wallet_address rest result)"

text \<open>
  \<^verbatim>\<open>process_wallet\<close>.  The body runs inside one \<^verbatim>\<open>try\<close> whose handler
  catches every exception and falls through to \<^verbatim>\<open>return result\<close>: a step that raises
  ends the body, and the record keeps what was written before.
\<close>

definition process_wallet :: "world \<Rightarrow> string \<Rightarrow> string set \<Rightarrow> wallet_metrics" where
  "process_wallet w wallet_address blacklist_set =
     (let result = initial_result wallet_address;
          result = result\<lparr>blacklist := wallet_address \<in> blacklist_set\<rparr>;
          result = result\<lparr>cnft := check_cnft (post_assets w) wallet_address\<rparr>
      in case pubkey_from_string w wallet_address of
           Inl e \<Rightarrow> result
         | Inr wallet_pubkey \<Rightarrow>
             (let all_transactions =
                    get_transactions (get_signatures_for_address w) wallet_pubkey;
                  meteora_transactions =
                    filter_meteora_transactions (get_transaction_filter w) all_transactions;
                  timestamps = map snd meteora_transactions
              in case first_tx_date timestamps of
                   Inl e \<Rightarrow> result
                 | Inr ft \<Rightarrow>
                     (let result = (case ft of None \<Rightarrow> result
                                    | Some d \<Rightarrow> result\<lparr>first_tx := d\<rparr>)
                      in case calculate_activity_metrics timestamps of
                           Inl e \<Rightarrow> result
                         | Inr (weeks, months) \<Rightarrow>
                             (let result = result\<lparr>active_weeks := weeks,
                                                   active_months := months\<rparr>;
                                  pools = pool_addresses (get_transaction_extract w)
                                            meteora_transactions
                              in fee_loop w wallet_address pools result))))"

section \<open>AssetOwnershipChecker of the bot\<close>

definition CNFT_CREATOR_ADDRESS :: string where
  "CNFT_CREATOR_ADDRESS = ''BC11Rk2ZoLxb7tjSpycXDyHnyTdYeaYMgbMwimh8DThX''"

definition CNFT_NAME_MATCH :: string where
  "CNFT_NAME_MATCH = ''Meteora LP Army Certificate''"

definition max_retries :: nat where
  "max_retries = 3"

text \<open>
  \<^verbatim>\<open>isinstance(creator, dict) and creator.get("address") == CNFT_CREATOR_ADDRESS\<close>.
\<close>

fun is_target_creator :: "json \<Rightarrow> bool" where
  "is_target_creator (JObj kvs) = (map_of kvs ''address'' = Some (JStr CNFT_CREATOR_ADDRESS))"
| "is_target_creator x = False"

text \<open>\<^verbatim>\<open>for creator in creators: if ...: creator_found = True; break\<close>.\<close>

definition creator_in :: "json \<Rightarrow> py_error + bool" where
  "creator_in creators = bind_err (py_iter creators) (\<lambda>cs. Inr (list_ex is_target_creator cs))"

text \<open>The standard location: \<^verbatim>\<open>if "creators" in item: ...\<close>.\<close>

definition standard_creator :: "json \<Rightarrow> py_error + bool" where
  "standard_creator item =
     bind_err (py_in ''creators'' item) (\<lambda>b.
     if b then bind_err (py_getitem item ''creators'') creator_in else Inr False)"

text \<open>\<^verbatim>\<open>"content" in item and "creators" in item["content"]\<close>, then the same loop.\<close>

definition content_creator :: "json \<Rightarrow> py_error + bool" where
  "content_creator item =
     bind_err (py_in ''content'' item) (\<lambda>b.
     if \<not> b then Inr False
     else bind_err (py_getitem item ''content'') (\<lambda>content.
          bind_err (py_in ''creators'' content) (\<lambda>b2.
          if \<not> b2 then Inr False
          else bind_err (py_getitem content ''creators'') creator_in)))"

text \<open>The value of \<^verbatim>\<open>creator_found\<close> after both locations.\<close>

definition creator_found :: "json \<Rightarrow> py_error + bool" where
  "creator_found item =
     bind_err (standard_creator item) (\<lambda>found.
     if found then Inr True else content_creator item)"

text \<open>The three name locations, each \<^verbatim>\<open>CNFT_NAME_MATCH in nft_name\<close>.\<close>

definition name_standard :: "json \<Rightarrow> py_error + bool" where
  "name_standard item =
     bind_err (py_in ''content'' item) (\<lambda>b.
     if \<not> b then Inr False
     else bind_err (py_getitem item ''content'') (\<lambda>content.
          bind_err (py_in ''metadata'' content) (\<lambda>b2.
          if \<not> b2 then Inr False
          else bind_err (py_getitem content ''metadata'') (\<lambda>metadata.
               bind_err (py_in ''name'' metadata) (\<lambda>b3.
               if \<not> b3 then Inr False
               else bind_err (py_getitem metadata ''name'') (\<lambda>nft_name.
                    py_in CNFT_NAME_MATCH nft_name))))))"

definition name_direct :: "json \<Rightarrow> py_error + bool" where
  "name_direct item =
     bind_err (py_in ''name'' item) (\<lambda>b.
     if \<not> b then Inr False
     else bind_err (py_getitem item ''name'') (\<lambda>nft_name.
          py_in CNFT_NAME_MATCH nft_name))"

definition name_content :: "json \<Rightarrow> py_error + bool" where
  "name_content item =
     bind_err (py_in ''content'' item) (\<lambda>b.
     if \<not> b then Inr False
     else bind_err (py_getitem item ''content'') (\<lambda>content.
          bind_err (py_in ''name'' content) (\<lambda>b2.
          if \<not> b2 then Inr False
          else bind_err (py_getitem content ''name'') (\<lambda>nft_name.
               py_in CNFT_NAME_MATCH nft_name))))"

text \<open>The value of \<^verbatim>\<open>name_match\<close> after the three locations.\<close>

definition name_match :: "json \<Rightarrow> py_error + bool" where
  "name_match item =
     bind_err (name_standard item) (\<lambda>m.
     if m then Inr True
     else bind_err (name_direct item) (\<lambda>m2.
          if m2 then Inr True else name_content item))"

text \<open>
  \<^verbatim>\<open>if "content" in item: content_str = str(item["content"]).lower();
  if "meteora" in content_str: ...\<close>, reached under \<^verbatim>\<open>if creator_found:\<close> only.
  \<open>lower\<close> is \<^verbatim>\<open>str(x).lower()\<close>.
\<close>

definition keyword_in_content :: "(json \<Rightarrow> string) \<Rightarrow> json \<Rightarrow> py_error + bool" where
  "keyword_in_content lower item =
     bind_err (py_in ''content'' item) (\<lambda>b.
     if \<not> b then Inr False
     else bind_err (py_getitem item ''content'') (\<lambda>content.
          Inr (contains_str ''meteora'' (lower content))))"

text \<open>One round of the first loop: true when the round returns with the certificate found.\<close>

definition item_match :: "(json \<Rightarrow> string) \<Rightarrow> json \<Rightarrow> py_error + bool" where
  "item_match lower item =
     bind_err (creator_found item) (\<lambda>cf.
     bind_err (name_match item) (\<lambda>nm.
     if cf \<and> nm then Inr True
     else if cf then keyword_in_content lower item
     else Inr False))"

fun first_pass :: "(json \<Rightarrow> string) \<Rightarrow> json list \<Rightarrow> py_error + bool" where
  "first_pass lower [] = Inr False"
| "first_pass lower (item # rest) =
     bind_err (item_match lower item) (\<lambda>m.
     if m then Inr True else first_pass lower rest)"

text \<open>The second loop, the fallback on the standard creator location alone.\<close>

fun fallback_pass :: "json list \<Rightarrow> py_error + bool" where
  "fallback_pass [] = Inr False"
| "fallback_pass (item # rest) =
     bind_err (standard_creator item) (\<lambda>m.
     if m then Inr True else fallback_pass rest)"

text \<open>
  The block that logs the shape of the first item.  It writes log lines only, and it
  raises when the first item or its metadata has no \<^verbatim>\<open>keys()\<close>.
\<close>

definition debug_first_item :: "json \<Rightarrow> py_error + unit" where
  "debug_first_item data =
     bind_err (py_in ''result'' data) (\<lambda>r.
     if \<not> r then Inr ()
     else bind_err (py_getitem data ''result'') (\<lambda>res.
          bind_err (py_in ''items'' res) (\<lambda>i.
          if \<not> i then Inr ()
          else bind_err (py_getitem res ''items'') (\<lambda>items.
               bind_err (py_len items) (\<lambda>n.
               if n = 0 then Inr ()
               else bind_err (py_first items) (\<lambda>first_item.
                    bind_err (py_keys first_item) (\<lambda>ks.
                    bind_err (py_in ''content'' first_item) (\<lambda>c.
                    if \<not> c then Inr ()
                    else bind_err (py_getitem first_item ''content'') (\<lambda>content.
                         bind_err (py_in ''metadata'' content) (\<lambda>m.
                         if \<not> m then Inr ()
                         else bind_err (py_getitem content ''metadata'') (\<lambda>metadata.
                              bind_err (py_keys metadata) (\<lambda>mks. Inr ()))))))))))))"

datatype attempt = Found | NotFound | Retry

text \<open>
  The body of the \<^verbatim>\<open>try\<close> from the decoded response on: \<open>Found\<close> is the
  \<^verbatim>\<open>return\<close> with \<^verbatim>\<open>result['cnft'] = True\<close>, \<open>NotFound\<close> the
  \<^verbatim>\<open>break\<close>, \<open>Retry\<close> the \<^verbatim>\<open>continue\<close> after \<^verbatim>\<open>retry_count += 1\<close>.
\<close>

definition attempt_body :: "(json \<Rightarrow> string) \<Rightarrow> json \<Rightarrow> py_error + attempt" where
  "attempt_body lower data =
     bind_err (debug_first_item data) (\<lambda>u.
     bind_err (py_in ''error'' data) (\<lambda>e.
     if e then bind_err (py_get data ''error'' (JObj [])) (\<lambda>err.
               bind_err (py_get err ''message'' (JStr ''Unknown error'')) (\<lambda>error_msg.
               Inr Retry))
     else bind_err (py_in ''result'' data) (\<lambda>r.
          if \<not> r then Inr Retry
          else bind_err (py_getitem data ''result'') (\<lambda>res.
               bind_err (py_in ''items'' res) (\<lambda>i.
               if \<not> i then Inr Retry
               else bind_err (py_getitem res ''items'') (\<lambda>items.
                    bind_err (py_len items) (\<lambda>items_count.
                    bind_err (py_iter items) (\<lambda>l.
                    bind_err (first_pass lower l) (\<lambda>m.
                    if m then Inr Found
                    else bind_err (fallback_pass l) (\<lambda>m2.
                         Inr (if m2 then Found else NotFound)))))))))))"

text \<open>
  The handlers of the \<^verbatim>\<open>try\<close>.  The first clause,
  \<^verbatim>\<open>except requests.exceptions.RequestException\<close>, counts a retry.  For any other
  exception Python evaluates the second clause, \<^verbatim>\<open>except json.JSONDecodeError\<close>;
  the module never imports \<^verbatim>\<open>json\<close>, so the evaluation raises \<^verbatim>\<open>NameError\<close>,
  which no clause of this \<^verbatim>\<open>try\<close> catches: it leaves \<^verbatim>\<open>check_cnft\<close>.
\<close>

definition except_clauses :: "py_error \<Rightarrow> py_error + attempt" where
  "except_clauses e = (if e = RequestException then Inr Retry else Inl NameError)"

definition cnft_attempt :: "(json \<Rightarrow> string) \<Rightarrow> py_error + json \<Rightarrow> py_error + attempt" where
  "cnft_attempt lower response =
     (case response of
        Inl e \<Rightarrow> except_clauses e
      | Inr data \<Rightarrow>
          (case attempt_body lower data of
             Inl e \<Rightarrow> except_clauses e
           | Inr a \<Rightarrow> Inr a))"

text \<open>
  \<^verbatim>\<open>while retry_count < max_retries\<close>; \<open>post retry_count\<close> is the request of
  that round.  The value is the final \<^verbatim>\<open>result['cnft']\<close>.
\<close>

function check_cnft_loop ::
  "(json \<Rightarrow> string) \<Rightarrow> (nat \<Rightarrow> string \<Rightarrow> py_error + json) \<Rightarrow> string \<Rightarrow> nat
     \<Rightarrow> py_error + bool" where
  "check_cnft_loop lower post wallet_address retry_count =
     (if retry_count < max_retries
      then (case cnft_attempt lower (post retry_count wallet_address) of
              Inl e \<Rightarrow> Inl e
            | Inr Found \<Rightarrow> Inr True
            | Inr NotFound \<Rightarrow> Inr False
            | Inr Retry \<Rightarrow> check_cnft_loop lower post wallet_address (retry_count + 1))
      else Inr False)"
  by pat_completeness auto
termination
  by (relation "measure (\<lambda>(lower, post, wallet_address, retry_count). max_retries - retry_count)")
     auto

definition check_cnft_v3 ::
  "(json \<Rightarrow> string) \<Rightarrow> (nat \<Rightarrow> string \<Rightarrow> py_error + json) \<Rightarrow> string \<Rightarrow> py_error + bool" where
  "check_cnft_v3 lower post wallet_address = check_cnft_loop lower post wallet_address 0"

section \<open>The pipeline of the bot\<close>

text \<open>
  \<^verbatim>\<open>WalletProcessor.get_pool_fees\<close>: conversion, sum and count stand inside the
  \<^verbatim>\<open>try\<close> of one pool, so a pool that fails changes nothing.
\<close>

fun fee_loop_v3 :: "world \<Rightarrow> string \<Rightarrow> string list \<Rightarrow> wallet_metrics \<Rightarrow> wallet_metrics" where
  "fee_loop_v3 w wallet_address [] result = result"
| "fee_loop_v3 w wallet_address (pool # rest) result =
     (case bind_err (get_earning w wallet_address pool) (\<lambda>data.
           bind_err (py_get data ''total_fee_usd_claimed'' (JFloat float_zero)) (\<lambda>v.
           py_float (float_of_str w) v)) of
        Inl e \<Rightarrow> fee_loop_v3 w wallet_address rest result
      | Inr fees \<Rightarrow>
          (let result = result\<lparr>total_fees := fadd (total_fees result) fees\<rparr>;
               result = (if fge fees fee_threshold
                         then result\<lparr>pools_with_fees := pools_with_fees result + 1\<rparr>
                         else result)
           in fee_loop_v3 w wallet_address rest result))"

text \<open>
  \<^verbatim>\<open>WalletProcessor.process\<close>: the eight stages in sequence, with no handler of
  its own.  Each stage but \<^verbatim>\<open>check_cnft\<close> catches every exception of its body, so
  only \<^verbatim>\<open>check_cnft\<close> can end the sequence.  The progress reports are left out:
  they do not touch the record, and the callback this repository passes in catches its
  own exceptions.
\<close>

definition process_v3 :: "world \<Rightarrow> string \<Rightarrow> string set \<Rightarrow> py_error + wallet_metrics" where
  "process_v3 w wallet_address blacklist_set =
     (let result = initial_result wallet_address;
          result = result\<lparr>blacklist := wallet_address \<in> blacklist_set\<rparr>
      in case check_cnft_v3 (str_lower w) (post_assets_v3 w) wallet_address of
           Inl e \<Rightarrow> Inl e
         | Inr found \<Rightarrow>
             (let result = result\<lparr>cnft := found\<rparr>;
                  transactions = get_transactions_v3 (pubkey_from_string w)
                                   (get_signatures_for_address w) wallet_address;
                  meteora_transactions =
                    filter_meteora_transactions (get_transaction_filter w) transactions;
                  timestamps = map snd meteora_transactions;
                  result = (case first_tx_date timestamps of
                              Inr (Some d) \<Rightarrow> result\<lparr>first_tx := d\<rparr>
                            | _ \<Rightarrow> result);
                  result = (case calculate_activity_metrics timestamps of
                              Inr (weeks, months) \<Rightarrow>
                                result\<lparr>active_weeks := weeks, active_months := months\<rparr>
                            | Inl e \<Rightarrow> result);
                  pools = extract_pool_addresses_v3 (get_transaction_extract w)
                            meteora_transactions
              in Inr (fee_loop_v3 w wallet_address pools result)))"

section \<open>TaskProgress\<close>

text \<open>
  The class is the same in both bots.  \<^verbatim>\<open>percent\<close> is
  \<^verbatim>\<open>int((self.current / self.total) * 100)\<close> behind the guard
  \<^verbatim>\<open>self.total <= 0\<close>; the division is Python's true division of two integers,
  the product a float product.
\<close>

datatype status = Idle | Running | Completed | Failed

record task_progress =
  task_name :: string
  current :: int
  total :: int
  status :: status

definition percent :: "task_progress \<Rightarrow> py_error + int" where
  "percent task =
     (if total task \<le> 0 then Inr 0
      else bind_err (int_truediv (current task) (total task)) (\<lambda>q.
           int_of_float (fmul q (Finite 100))))"

section \<open>Example worlds\<close>

text \<open>
  Concrete collaborators on which the theorems below are run.  In the first the address
  does not parse, the asset search returns the certificate mint, and nothing else
  answers.
\<close>

definition world_unparsable :: world where
  "world_unparsable =
     \<lparr>post_assets = (\<lambda>a. Inr (JObj [(''result'',
                        JObj [(''items'', JArr [JObj [(''id'', JStr CNFT_MINT)]])])])),
      post_assets_v3 = (\<lambda>n a. Inl RequestException),
      pubkey_from_string = (\<lambda>a. Inl ValueError),
      get_signatures_for_address = (\<lambda>pk. Inl RPCException),
      get_transaction_filter = (\<lambda>s. Inl RPCException),
      get_transaction_extract = (\<lambda>s. Inl RPCException),
      get_earning = (\<lambda>a p. Inl RequestException),
      float_of_str = (\<lambda>s. Inl ValueError),
      str_lower = (\<lambda>j. [])\<rparr>"

text \<open>
  In the next the address does not parse either, the asset search returns no asset, and
  nothing else answers.
\<close>

definition world_no_certificate :: world where
  "world_no_certificate =
     \<lparr>post_assets = (\<lambda>a. Inr (JObj [(''result'', JObj [(''items'', JArr [])])])),
      post_assets_v3 = (\<lambda>n a. Inl RequestException),
      pubkey_from_string = (\<lambda>a. Inl ValueError),
      get_signatures_for_address = (\<lambda>pk. Inl RPCException),
      get_transaction_filter = (\<lambda>s. Inl RPCException),
      get_transaction_extract = (\<lambda>s. Inl RPCException),
      get_earning = (\<lambda>a p. Inl RequestException),
      float_of_str = (\<lambda>s. Inl ValueError),
      str_lower = (\<lambda>j. [])\<rparr>"

text \<open>
  The earnings endpoint reports 0.02, 0.0 and 5.00 for three pools, a null field for a
  fourth, no field for a fifth, and fails for every other pool.
\<close>

definition world_fees :: world where
  "world_fees =
     \<lparr>post_assets = (\<lambda>a. Inl RequestException),
      post_assets_v3 = (\<lambda>n a. Inl RequestException),
      pubkey_from_string = (\<lambda>a. Inr a),
      get_signatures_for_address = (\<lambda>pk. Inl RPCException),
      get_transaction_filter = (\<lambda>s. Inl RPCException),
      get_transaction_extract = (\<lambda>s. Inl RPCException),
      get_earning = (\<lambda>a p.
         if p = ''poolA''
         then Inr (JObj [(''total_fee_usd_claimed'', JFloat (to_float (2 / 100)))])
         else if p = ''poolB''
         then Inr (JObj [(''total_fee_usd_claimed'', JFloat (Finite 0))])
         else if p = ''poolC''
         then Inr (JObj [(''total_fee_usd_claimed'', JFloat (Finite 5))])
         else if p = ''poolD''
         then Inr (JObj [(''total_fee_usd_claimed'', JNull)])
         else if p = ''poolE''
         then Inr (JObj [(''other'', JInt 7)])
         else Inl RequestException),
      float_of_str = (\<lambda>s. Inl ValueError),
      str_lower = (\<lambda>j. [])\<rparr>"

text \<open>
  The signature listing returns one signature per given block time; every transaction
  holds one instruction of the target program with the pool at index 2; the earnings
  endpoint fails.
\<close>

definition world_history :: "int option list \<Rightarrow> world" where
  "world_history block_times =
     \<lparr>post_assets = (\<lambda>a. Inl RequestException),
      post_assets_v3 = (\<lambda>n a. Inl RequestException),
      pubkey_from_string = (\<lambda>a. Inr a),
      get_signatures_for_address =
        (\<lambda>pk. Inr (map (\<lambda>t. \<lparr>signature = ''sig'', block_time = t\<rparr>) block_times)),
      get_transaction_filter =
        (\<lambda>s. Inr (Some [UiPartiallyDecodedInstruction METEORA_PROGRAM_ID [''a'', ''b'', ''pool'']])),
      get_transaction_extract =
        (\<lambda>s. Inr (Some [UiPartiallyDecodedInstruction METEORA_PROGRAM_ID [''a'', ''b'', ''pool'']])),
      get_earning = (\<lambda>a p. Inl RequestException),
      float_of_str = (\<lambda>s. Inl ValueError),
      str_lower = (\<lambda>j. [])\<rparr>"

text \<open>
  A rendering of \<^verbatim>\<open>str(x).lower()\<close> for the examples: Python's text of a value
  built from \<^verbatim>\<open>dict\<close>s, lists, integers, booleans, \<^verbatim>\<open>None\<close> and strings
  without quotes, backslashes or control characters, in lower case.  Floats are not
  rendered; no example holds one.
\<close>

definition show_int :: "int \<Rightarrow> string" where
  "show_int i = (if i < 0 then CHR ''-'' # show_nat (nat (- i)) else show_nat (nat i))"

fun join_comma :: "string list \<Rightarrow> string" where
  "join_comma [] = []"
| "join_comma [s] = s"
| "join_comma (s # t # rest) = s @ '', '' @ join_comma (t # rest)"

fun py_str :: "json \<Rightarrow> string" where
  "py_str JNull = ''None''"
| "py_str (JBool b) = (if b then ''True'' else ''False'')"
| "py_str (JInt i) = show_int i"
| "py_str (JFloat f) = []"
| "py_str (JStr s) = [CHR 0x27] @ s @ [CHR 0x27]"
| "py_str (JArr xs) = ''['' @ join_comma (map py_str xs) @ '']''"
| "py_str (JObj kvs) =
     ''{'' @ join_comma (map (\<lambda>kv. [CHR 0x27] @ fst kv @ [CHR 0x27] @ '': '' @ py_str (snd kv)) kvs)
       @ ''}''"

definition lower_char :: "char \<Rightarrow> char" where
  "lower_char c =
     (let n = (of_char c :: nat) in if 65 \<le> n \<and> n \<le> 90 then char_of (n + 32) else c)"

definition example_lower :: "json \<Rightarrow> string" where
  "example_lower x = map lower_char (py_str x)"

text \<open>
  Responses of the asset search and five assets: one with the keyword in its content and
  no creator, one with the creator under \<^verbatim>\<open>content\<close> only, one with that creator
  and the keyword, one whose metadata name is null, and the certificate itself (creator
  and name, under an id that is not the mint address).  \<open>world_assets\<close> answers the
  bot's asset search by attempt number and has no transactions.
\<close>

definition asset_response :: "json list \<Rightarrow> json" where
  "asset_response items =
     JObj [(''jsonrpc'', JStr ''2.0''),
           (''result'', JObj [(''total'', JInt (int (length items))), (''limit'', JInt 1000),
                              (''page'', JInt 1), (''items'', JArr items)]),
           (''id'', JStr ''1'')]"

definition asset_keyword_only :: json where
  "asset_keyword_only =
     JObj [(''id'', JStr ''asset1''),
           (''content'', JObj [(''metadata'', JObj [(''name'', JStr ''Meteora DLMM Position'')])])]"

definition asset_nested_creator_only :: json where
  "asset_nested_creator_only =
     JObj [(''id'', JStr ''asset2''),
           (''content'', JObj [(''creators'', JArr [JObj [(''address'', JStr CNFT_CREATOR_ADDRESS)]]),
                               (''metadata'', JObj [(''name'', JStr ''Badge'')])])]"

definition asset_nested_creator_keyword :: json where
  "asset_nested_creator_keyword =
     JObj [(''id'', JStr ''asset3''),
           (''content'', JObj [(''creators'', JArr [JObj [(''address'', JStr CNFT_CREATOR_ADDRESS)]]),
                               (''metadata'', JObj [(''name'', JStr ''Meteora Badge'')])])]"

definition asset_null_name :: json where
  "asset_null_name =
     JObj [(''id'', JStr ''asset4''),
           (''content'', JObj [(''metadata'', JObj [(''name'', JNull)])])]"

definition world_assets :: "(nat \<Rightarrow> py_error + json) \<Rightarrow> world" where
  "world_assets answers =
     \<lparr>post_assets = (\<lambda>a. Inl RequestException),
      post_assets_v3 = (\<lambda>n a. answers n),
      pubkey_from_string = (\<lambda>a. Inr a),
      get_signatures_for_address = (\<lambda>pk. Inr []),
      get_transaction_filter = (\<lambda>s. Inr None),
      get_transaction_extract = (\<lambda>s. Inr None),
      get_earning = (\<lambda>a p. Inl RequestException),
      float_of_str = (\<lambda>s. Inl ValueError),
      str_lower = example_lower\<rparr>"

definition asset_certificate :: json where
  "asset_certificate =
     JObj [(''id'', JStr ''asset5''),
           (''creators'', JArr [JObj [(''address'', JStr CNFT_CREATOR_ADDRESS), (''share'', JInt 100)]]),
           (''content'', JObj [(''metadata'', JObj [(''name'', JStr ''Meteora LP Army Certificate'')])])]"

section \<open>Vocabulary of the certificate claim\<close>

text \<open>
  The conditions of the cNFT check as predicates on a decoded asset: a creator entry with
  the fixed address in the top-level \<^verbatim>\<open>creators\<close> list, one in the list under
  \<^verbatim>\<open>content\<close>, the fixed name as a substring of one of the three name fields, the
  keyword in the lower-cased text of \<^verbatim>\<open>content\<close>.  \<open>certificate\<close> is the
  condition the bot decides; \<open>has_mint_id\<close> the one \<^verbatim>\<open>meteora.py\<close> decides.
  \<open>response_items\<close> reads the asset list out of a response of the documented shape:
  a \<^verbatim>\<open>dict\<close> without \<^verbatim>\<open>error\<close> whose \<^verbatim>\<open>result.items\<close> is a list of
  assets, each a \<^verbatim>\<open>dict\<close> whose \<^verbatim>\<open>creators\<close> are lists, whose names are
  strings and whose \<^verbatim>\<open>content\<close> and \<^verbatim>\<open>metadata\<close> are \<^verbatim>\<open>dict\<close>s, where
  present.
\<close>

fun obj_field :: "json \<Rightarrow> string \<Rightarrow> json option" where
  "obj_field (JObj kvs) k = map_of kvs k"
| "obj_field x k = None"

fun creators_listed :: "json option \<Rightarrow> bool" where
  "creators_listed (Some (JArr cs)) = list_ex is_target_creator cs"
| "creators_listed v = False"

definition top_creator :: "json \<Rightarrow> bool" where
  "top_creator item = creators_listed (obj_field item ''creators'')"

definition nested_creator :: "json \<Rightarrow> bool" where
  "nested_creator item =
     (case obj_field item ''content'' of
        Some content \<Rightarrow> creators_listed (obj_field content ''creators'')
      | None \<Rightarrow> False)"

fun name_holds :: "json option \<Rightarrow> bool" where
  "name_holds (Some (JStr s)) = contains_str CNFT_NAME_MATCH s"
| "name_holds v = False"

definition name_found :: "json \<Rightarrow> bool" where
  "name_found item =
     ((case obj_field item ''content'' of
         Some content \<Rightarrow>
           (case obj_field content ''metadata'' of
              Some metadata \<Rightarrow> name_holds (obj_field metadata ''name'')
            | None \<Rightarrow> False)
       | None \<Rightarrow> False)
      \<or> name_holds (obj_field item ''name'')
      \<or> (case obj_field item ''content'' of
            Some content \<Rightarrow> name_holds (obj_field content ''name'')
          | None \<Rightarrow> False))"

definition keyword_found :: "(json \<Rightarrow> string) \<Rightarrow> json \<Rightarrow> bool" where
  "keyword_found lower item =
     (case obj_field item ''content'' of
        Some content \<Rightarrow> contains_str ''meteora'' (lower content)
      | None \<Rightarrow> False)"

definition certificate :: "(json \<Rightarrow> string) \<Rightarrow> json list \<Rightarrow> bool" where
  "certificate lower items =
     list_ex (\<lambda>i. top_creator i
                  \<or> (nested_creator i \<and> (name_found i \<or> keyword_found lower i))) items"

fun absent_or :: "(json \<Rightarrow> bool) \<Rightarrow> json option \<Rightarrow> bool" where
  "absent_or P None = True"
| "absent_or P (Some v) = P v"

fun is_list :: "json \<Rightarrow> bool" where
  "is_list (JArr xs) = True"
| "is_list x = False"

fun is_str :: "json \<Rightarrow> bool" where
  "is_str (JStr s) = True"
| "is_str x = False"

fun wf_metadata :: "json \<Rightarrow> bool" where
  "wf_metadata (JObj kvs) = absent_or is_str (map_of kvs ''name'')"
| "wf_metadata x = False"

fun wf_content :: "json \<Rightarrow> bool" where
  "wf_content (JObj kvs) =
     (absent_or is_list (map_of kvs ''creators'')
      \<and> absent_or is_str (map_of kvs ''name'')
      \<and> absent_or wf_metadata (map_of kvs ''metadata''))"
| "wf_content x = False"

fun wf_asset :: "json \<Rightarrow> bool" where
  "wf_asset (JObj kvs) =
     (absent_or is_list (map_of kvs ''creators'')
      \<and> absent_or is_str (map_of kvs ''name'')
      \<and> absent_or wf_content (map_of kvs ''content''))"
| "wf_asset x = False"

definition response_items :: "json \<Rightarrow> json list option" where
  "response_items data =
     (case obj_field data ''error'' of
        Some e \<Rightarrow> None
      | None \<Rightarrow>
          (case obj_field data ''result'' of
             Some res \<Rightarrow>
               (case obj_field res ''items'' of
                  Some (JArr items) \<Rightarrow> (if list_all wf_asset items then Some items else None)
                | _ \<Rightarrow> None)
           | None \<Rightarrow> None))"

definition has_mint_id :: "json \<Rightarrow> bool" where
  "has_mint_id item = (obj_field item ''id'' = Some (JStr CNFT_MINT))"

section \<open>Vocabulary of the activity claims\<close>

text \<open>
  The timestamps that \<^verbatim>\<open>datetime\<close> can represent (1 January of year 1 to
  31 December 9999, UTC), those among them from 1 January 1000 on, whose year has four
  digits, the UTC date of a timestamp, its (ISO year, ISO week) pair and
  its (year, month) pair, and the timestamps of the protocol transactions of a wallet,
  as \<^verbatim>\<open>process_wallet\<close> computes them.
\<close>

definition in_datetime_range :: "int \<Rightarrow> bool" where
  "in_datetime_range t = (- 62135596800 \<le> t \<and> t \<le> 253402300799)"

definition four_digit_year :: "int \<Rightarrow> bool" where
  "four_digit_year t = (- 30610224000 \<le> t \<and> t \<le> 253402300799)"

definition utc_date :: "int \<Rightarrow> date" where
  "utc_date t = ord2ymd (t div 86400 + 719163)"

definition iso_year_week :: "int \<Rightarrow> int \<times> int" where
  "iso_year_week t = (case isocalendar (utc_date t) of (y, week, wd) \<Rightarrow> (y, week))"

definition year_month :: "int \<Rightarrow> int \<times> int" where
  "year_month t = (year (utc_date t), month (utc_date t))"

definition meteora_timestamps :: "world \<Rightarrow> pubkey \<Rightarrow> int option list" where
  "meteora_timestamps w pk =
     map snd (filter_meteora_transactions (get_transaction_filter w)
                (get_transactions (get_signatures_for_address w) pk))"

section \<open>The claims read literally\<close>

text \<open>
  Claim C3 in its own words: a record is kept when its transaction was fetched and has an
  instruction whose program identifier is the target program.
\<close>

definition claimed_protocol_tx :: "rpc_client \<Rightarrow> signature \<times> 't \<Rightarrow> bool" where
  "claimed_protocol_tx client r =
     (case client (fst r) of
        Inr (Some instrs) \<Rightarrow> list_ex (\<lambda>i. program_id i = METEORA_PROGRAM_ID) instrs
      | _ \<Rightarrow> False)"

text \<open>What the code tests: the instruction must also be a partially decoded one.\<close>

fun is_partially_decoded :: "instruction \<Rightarrow> bool" where
  "is_partially_decoded (UiPartiallyDecodedInstruction p accs) = True"
| "is_partially_decoded (ParsedInstruction p) = False"

definition is_meteora_instruction :: "instruction \<Rightarrow> bool" where
  "is_meteora_instruction i = (is_partially_decoded i \<and> program_id i = METEORA_PROGRAM_ID)"

definition protocol_tx :: "rpc_client \<Rightarrow> signature \<times> 't \<Rightarrow> bool" where
  "protocol_tx client r =
     (case client (fst r) of
        Inr (Some instrs) \<Rightarrow> list_ex is_meteora_instruction instrs
      | _ \<Rightarrow> False)"

text \<open>
  Claim C1 in its own words: the address at index 2 of the first instruction of the
  target program, and nothing when that index is out of range.
\<close>

fun account_list :: "instruction \<Rightarrow> pubkey list" where
  "account_list (UiPartiallyDecodedInstruction p accs) = accs"
| "account_list (ParsedInstruction p) = []"

definition claimed_pool_address :: "instruction list \<Rightarrow> pubkey option" where
  "claimed_pool_address instrs =
     (case filter (\<lambda>i. program_id i = METEORA_PROGRAM_ID) instrs of
        [] \<Rightarrow> None
      | i # rest \<Rightarrow> (if 2 < length (account_list i) then Some (account_list i ! 2) else None))"

text \<open>
  What the code reads: the instructions of the target program that are partially decoded
  and have an entry at index 2; \<open>pool_slots\<close> lists these entries in instruction order.
\<close>

definition has_pool_slot :: "instruction \<Rightarrow> bool" where
  "has_pool_slot i = (is_meteora_instruction i \<and> 2 < length (account_list i))"

definition fetched_instructions :: "rpc_client \<Rightarrow> signature \<Rightarrow> instruction list" where
  "fetched_instructions client sig =
     (case client sig of Inr (Some instrs) \<Rightarrow> instrs | _ \<Rightarrow> [])"

definition pool_slots :: "instruction list \<Rightarrow> pubkey list" where
  "pool_slots instrs = map (\<lambda>i. account_list i ! 2) (filter has_pool_slot instrs)"

text \<open>
  Claim C2 in its own words: an asset with creator and name, or an asset with the creator
  alone, or an asset with the keyword in its content.
\<close>

definition claimed_certificate :: "(json \<Rightarrow> string) \<Rightarrow> json list \<Rightarrow> bool" where
  "claimed_certificate lower items =
     (list_ex (\<lambda>i. (top_creator i \<or> nested_creator i) \<and> name_found i) items
      \<or> list_ex (\<lambda>i. top_creator i \<or> nested_creator i) items
      \<or> list_ex (keyword_found lower) items)"

text \<open>
  Claim C5 in its own words: the date as DD.MM.YYYY, the day and the month with two
  digits and the year with four.
\<close>

definition claimed_first_tx :: "date \<Rightarrow> string" where
  "claimed_first_tx dt =
     [digit_char (day dt div 10), digit_char (day dt), CHR ''.'',
      digit_char (month dt div 10), digit_char (month dt), CHR ''.'',
      digit_char (year dt div 1000), digit_char (year dt div 100),
      digit_char (year dt div 10), digit_char (year dt)]"

section \<open>Proofs: fetcher and filter\<close>

lemma has_meteora_instruction_iff:
  "has_meteora_instruction instrs = list_ex is_meteora_instruction instrs"
  by (induction instrs rule: has_meteora_instruction.induct)
     (simp_all add: is_meteora_instruction_def)

lemma filter_loop_eq:
  "filter_loop client txs acc = acc @ filter (protocol_tx client) txs"
proof (induction txs arbitrary: acc)
  case Nil
  show ?case by simp
next
  case (Cons r txs)
  obtain sig ts where r: "r = (sig, ts)" by (cases r)
  show ?case
    by (cases "client sig")
       (auto simp: r Cons protocol_tx_def has_meteora_instruction_iff split: option.splits)
qed

lemma truthy_time_not_None: "truthy_time t \<Longrightarrow> t \<noteq> None"
  by (cases t) simp_all

lemma get_transactions_snd:
  "r \<in> set (get_transactions gsfa pk) \<Longrightarrow> truthy_time (snd r)"
  by (auto simp: get_transactions_def split: sum.splits)

lemma get_transactions_v3_snd:
  "r \<in> set (get_transactions_v3 pfs gsfa addr) \<Longrightarrow> truthy_time (snd r)"
  by (auto simp: get_transactions_v3_def split: sum.splits)

lemma filter_meteora_transactions_subset:
  "set (filter_meteora_transactions client txs) \<subseteq> set txs"
  by (simp add: filter_meteora_transactions_def filter_loop_eq)

text \<open>
  C3 (amended).  The filter returns, in the order of the input, exactly the records whose
  transaction was fetched, is not null, and has a partially decoded top-level instruction
  with the target program id; records whose fetch raises or yields nothing are skipped,
  and the records after them are still examined.
\<close>

theorem filter_meteora_transactions_spec:
  "filter_meteora_transactions client txs = filter (protocol_tx client) txs"
  by (simp add: filter_meteora_transactions_def filter_loop_eq)

theorem filter_meteora_transactions_spec_witness:
  "filter_meteora_transactions
     (\<lambda>s. if s = ''s1'' then Inr (Some [ParsedInstruction ''Vote'',
                                         UiPartiallyDecodedInstruction METEORA_PROGRAM_ID [''a'']])
          else if s = ''s2'' then Inl RPCException
          else if s = ''s3'' then Inr None
          else Inr (Some [UiPartiallyDecodedInstruction METEORA_PROGRAM_ID [],
                          UiPartiallyDecodedInstruction METEORA_PROGRAM_ID []]))
     [(''s1'', 10::int), (''s2'', 20), (''s3'', 30), (''s4'', 40)]
   = [(''s1'', 10), (''s4'', 40)]"
  using filter_meteora_transactions_spec
    [of "(\<lambda>s. if s = ''s1'' then Inr (Some [ParsedInstruction ''Vote'',
                                         UiPartiallyDecodedInstruction METEORA_PROGRAM_ID [''a'']])
          else if s = ''s2'' then Inl RPCException
          else if s = ''s3'' then Inr None
          else Inr (Some [UiPartiallyDecodedInstruction METEORA_PROGRAM_ID [],
                          UiPartiallyDecodedInstruction METEORA_PROGRAM_ID []]))"
        "[(''s1'', 10::int), (''s2'', 20), (''s3'', 30), (''s4'', 40)]"]
  by (simp add: protocol_tx_def is_meteora_instruction_def)

text \<open>
  C3 as stated fails: a fully parsed instruction whose program id is the target program
  satisfies the claim's condition, and the code drops the record.
\<close>

theorem filter_meteora_transactions_counterexample:
  "claimed_protocol_tx (\<lambda>s. Inr (Some [ParsedInstruction METEORA_PROGRAM_ID])) (''s1'', 10::int)
   \<and> filter_meteora_transactions (\<lambda>s. Inr (Some [ParsedInstruction METEORA_PROGRAM_ID]))
        [(''s1'', 10::int)] = []"
  by (simp add: claimed_protocol_tx_def filter_meteora_transactions_def)

text \<open>
  C8.  Every record returned by the transaction-history fetcher, of \<^verbatim>\<open>meteora.py\<close>
  and of the bot, has a block time that is not \<^verbatim>\<open>None\<close>, and so has every record
  that the protocol filter passes on; each record comes from a returned signature with
  that block time; and when the signature request raises, the fetcher returns the empty
  list.
\<close>

theorem get_transactions_timestamps:
  "(\<forall>r \<in> set (get_transactions gsfa pk). snd r \<noteq> None)
   \<and> (\<forall>r \<in> set (get_transactions_v3 pfs gsfa addr). snd r \<noteq> None)
   \<and> (\<forall>r \<in> set (filter_meteora_transactions client (get_transactions gsfa pk)). snd r \<noteq> None)
   \<and> (\<forall>r \<in> set (filter_meteora_transactions client (get_transactions_v3 pfs gsfa addr)).
         snd r \<noteq> None)
   \<and> (\<forall>val. gsfa pk = Inr val \<longrightarrow>
         (\<forall>r \<in> set (get_transactions gsfa pk).
            \<exists>s \<in> set val. r = (signature s, block_time s)))
   \<and> (\<forall>e. gsfa pk = Inl e \<longrightarrow> get_transactions gsfa pk = [])
   \<and> (\<forall>e. pfs addr = Inl e \<longrightarrow> get_transactions_v3 pfs gsfa addr = [])
   \<and> (\<forall>e pk. pfs addr = Inr pk \<longrightarrow> gsfa pk = Inl e \<longrightarrow> get_transactions_v3 pfs gsfa addr = [])"
proof -
  have a: "\<forall>r \<in> set (get_transactions gsfa pk). snd r \<noteq> None"
    using get_transactions_snd truthy_time_not_None by blast
  have b: "\<forall>r \<in> set (get_transactions_v3 pfs gsfa addr). snd r \<noteq> None"
    using get_transactions_v3_snd truthy_time_not_None by blast
  have c: "\<forall>r \<in> set (filter_meteora_transactions client (get_transactions gsfa pk)).
             snd r \<noteq> None"
    using a filter_meteora_transactions_subset by blast
  have d: "\<forall>r \<in> set (filter_meteora_transactions client (get_transactions_v3 pfs gsfa addr)).
             snd r \<noteq> None"
    using b filter_meteora_transactions_subset by blast
  have e: "\<forall>val. gsfa pk = Inr val \<longrightarrow>
         (\<forall>r \<in> set (get_transactions gsfa pk).
            \<exists>s \<in> set val. r = (signature s, block_time s))"
    by (auto simp: get_transactions_def)
  have f: "\<forall>e. gsfa pk = Inl e \<longrightarrow> get_transactions gsfa pk = []"
    by (simp add: get_transactions_def)
  have g: "\<forall>e. pfs addr = Inl e \<longrightarrow> get_transactions_v3 pfs gsfa addr = []"
    by (simp add: get_transactions_v3_def)
  have h: "\<forall>e pk. pfs addr = Inr pk \<longrightarrow> gsfa pk = Inl e \<longrightarrow>
             get_transactions_v3 pfs gsfa addr = []"
    by (simp add: get_transactions_v3_def)
  from a b c d e f g h show ?thesis by blast
qed

theorem get_transactions_timestamps_witness:
  "get_transactions
     (\<lambda>w. Inr [\<lparr>signature = ''s1'', block_time = Some 1700000000\<rparr>,
               \<lparr>signature = ''s2'', block_time = None\<rparr>,
               \<lparr>signature = ''s3'', block_time = Some 0\<rparr>]) ''W''
     = [(''s1'', Some 1700000000)]
   \<and> snd (hd (get_transactions
          (\<lambda>w. Inr [\<lparr>signature = ''s1'', block_time = Some 1700000000\<rparr>,
                    \<lparr>signature = ''s2'', block_time = None\<rparr>,
                    \<lparr>signature = ''s3'', block_time = Some 0\<rparr>]) ''W'')) \<noteq> None
   \<and> get_transactions (\<lambda>w. Inl RPCException) ''W'' = []
   \<and> get_transactions_v3 (\<lambda>a. Inl ValueError) (\<lambda>w. Inl RPCException) ''W'' = []"
  using get_transactions_timestamps
    [of "(\<lambda>w. Inr [\<lparr>signature = ''s1'', block_time = Some 1700000000\<rparr>,
               \<lparr>signature = ''s2'', block_time = None\<rparr>,
               \<lparr>signature = ''s3'', block_time = Some 0\<rparr>])" "''W''"
        "(\<lambda>a. Inr a)" "''W''" "(\<lambda>s. Inr None)"]
    get_transactions_timestamps
    [of "(\<lambda>w. Inl RPCException)" "''W''" "(\<lambda>a. Inl ValueError)" "''W''" "(\<lambda>s. Inr None)"]
  by (simp add: get_transactions_def)

section \<open>Proofs: pool addresses\<close>

lemma scan_pool_address_eq:
  "scan_pool_address instrs =
     (case pool_slots instrs of [] \<Rightarrow> None | a # rest \<Rightarrow> Some a)"
  by (induction instrs rule: scan_pool_address.induct)
     (simp_all add: pool_slots_def has_pool_slot_def is_meteora_instruction_def)

lemma set_set_add: "set (set_add x s) = insert x (set s)"
  by (auto simp: set_add_def)

lemma distinct_set_add: "distinct s \<Longrightarrow> distinct (set_add x s)"
  by (simp add: set_add_def)

lemma pool_address_loop_set:
  "set (pool_address_loop client txs s) =
     set s \<union> {a. \<exists>r \<in> set txs. extract_pool_address client (fst r) = Some a}"
proof (induction txs arbitrary: s)
  case Nil
  show ?case by simp
next
  case (Cons r txs)
  obtain sig ts where r: "r = (sig, ts)" by (cases r)
  show ?case
    by (cases "extract_pool_address client sig") (auto simp: r Cons set_set_add)
qed

lemma pool_address_loop_distinct:
  "distinct s \<Longrightarrow> distinct (pool_address_loop client txs s)"
proof (induction txs arbitrary: s)
  case Nil
  then show ?case by simp
next
  case (Cons r txs)
  obtain sig ts where r: "r = (sig, ts)" by (cases r)
  show ?case
    by (cases "extract_pool_address client sig")
       (simp_all add: r Cons distinct_set_add)
qed

lemma scan_pool_addresses_v3_set:
  "set (scan_pool_addresses_v3 instrs s) = set s \<union> set (pool_slots instrs)"
  by (induction instrs s rule: scan_pool_addresses_v3.induct)
     (auto simp: pool_slots_def has_pool_slot_def is_meteora_instruction_def set_set_add)

lemma scan_pool_addresses_v3_distinct:
  "distinct s \<Longrightarrow> distinct (scan_pool_addresses_v3 instrs s)"
  by (induction instrs s rule: scan_pool_addresses_v3.induct)
     (simp_all add: distinct_set_add)

lemma extract_loop_v3_set:
  "set (extract_loop_v3 client txs s) =
     set s \<union> (\<Union>r \<in> set txs. set (pool_slots (fetched_instructions client (fst r))))"
proof (induction txs arbitrary: s)
  case Nil
  show ?case by simp
next
  case (Cons r txs)
  obtain sig ts where r: "r = (sig, ts)" by (cases r)
  show ?case
  proof (cases "client sig")
    case (Inl e)
    then show ?thesis by (simp add: r Cons fetched_instructions_def pool_slots_def)
  next
    case (Inr v)
    show ?thesis
    proof (cases v)
      case None
      with Inr show ?thesis by (simp add: r Cons fetched_instructions_def pool_slots_def)
    next
      case (Some instrs)
      with Inr show ?thesis
        by (simp add: r Cons fetched_instructions_def scan_pool_addresses_v3_set Un_assoc)
    qed
  qed
qed

lemma extract_loop_v3_distinct:
  "distinct s \<Longrightarrow> distinct (extract_loop_v3 client txs s)"
proof (induction txs arbitrary: s)
  case Nil
  then show ?case by simp
next
  case (Cons r txs)
  obtain sig ts where r: "r = (sig, ts)" by (cases r)
  show ?case
    by (cases "client sig")
       (simp_all add: r Cons scan_pool_addresses_v3_distinct split: option.splits)
qed

text \<open>
  C1 (amended).  \<^verbatim>\<open>extract_pool_address\<close> of \<^verbatim>\<open>meteora.py\<close> returns the
  address at index 2 of the first partially decoded instruction of the target program
  whose account list has at least three entries, and nothing when there is no such
  instruction or the fetch raises or yields no transaction; the pool list of
  \<^verbatim>\<open>process_wallet\<close> holds exactly the addresses so extracted, each once.  The bot's
  \<^verbatim>\<open>extract_pool_addresses\<close> collects the address at index 2 of every such
  instruction of every fetched transaction, each once.
\<close>

theorem extract_pool_address_spec:
  "extract_pool_address client sig =
     (case pool_slots (fetched_instructions client sig) of
        [] \<Rightarrow> None
      | a # rest \<Rightarrow> Some a)
   \<and> set (pool_addresses client txs) =
       {a. \<exists>r \<in> set txs. extract_pool_address client (fst r) = Some a}
   \<and> distinct (pool_addresses client txs)
   \<and> set (extract_pool_addresses_v3 client txs) =
       (\<Union>r \<in> set txs. set (pool_slots (fetched_instructions client (fst r))))
   \<and> distinct (extract_pool_addresses_v3 client txs)"
proof -
  have a: "extract_pool_address client sig =
     (case pool_slots (fetched_instructions client sig) of
        [] \<Rightarrow> None
      | a # rest \<Rightarrow> Some a)"
    by (simp add: extract_pool_address_def fetched_instructions_def scan_pool_address_eq
          pool_slots_def split: sum.splits option.splits)
  have b: "set (pool_addresses client txs) =
       {a. \<exists>r \<in> set txs. extract_pool_address client (fst r) = Some a}"
    by (simp add: pool_addresses_def pool_address_loop_set)
  have c: "distinct (pool_addresses client txs)"
    by (simp add: pool_addresses_def pool_address_loop_distinct)
  have d: "set (extract_pool_addresses_v3 client txs) =
       (\<Union>r \<in> set txs. set (pool_slots (fetched_instructions client (fst r))))"
    by (simp add: extract_pool_addresses_v3_def extract_loop_v3_set)
  have e: "distinct (extract_pool_addresses_v3 client txs)"
    by (simp add: extract_pool_addresses_v3_def extract_loop_v3_distinct)
  from a b c d e show ?thesis by blast
qed

theorem extract_pool_address_spec_witness:
  "extract_pool_address
     (\<lambda>s. if s = ''s1''
          then Inr (Some [UiPartiallyDecodedInstruction METEORA_PROGRAM_ID
                            [''user'', ''position'', ''pool'', ''x'']])
          else Inl RPCException) ''s1'' = Some ''pool''
   \<and> pool_addresses
       (\<lambda>s. if s = ''s1''
          then Inr (Some [UiPartiallyDecodedInstruction METEORA_PROGRAM_ID
                            [''user'', ''position'', ''pool'', ''x'']])
          else Inl RPCException) [(''s1'', 1::int), (''s2'', 2), (''s1'', 3)] = [''pool'']
   \<and> set (extract_pool_addresses_v3
       (\<lambda>s. if s = ''s1''
          then Inr (Some [UiPartiallyDecodedInstruction METEORA_PROGRAM_ID
                            [''user'', ''position'', ''pool'', ''x'']])
          else Inl RPCException) [(''s1'', 1::int), (''s2'', 2), (''s1'', 3)]) = {''pool''}"
  using extract_pool_address_spec
    [of "(\<lambda>s. if s = ''s1''
          then Inr (Some [UiPartiallyDecodedInstruction METEORA_PROGRAM_ID
                            [''user'', ''position'', ''pool'', ''x'']])
          else Inl RPCException)" "''s1''" "[(''s1'', 1::int), (''s2'', 2), (''s1'', 3)]"]
  by (simp add: fetched_instructions_def pool_slots_def has_pool_slot_def
        is_meteora_instruction_def pool_addresses_def extract_pool_address_def set_add_def)

text \<open>
  C1 as stated fails.  When the first instruction of the target program has two
  accounts and a later one has three, \<^verbatim>\<open>extract_pool_address\<close> returns the later
  instruction's address, where the claim has the transaction contribute nothing.  And
  for two instructions with three accounts each, the bot's extractor contributes both
  addresses, where the claim reads the first only.
\<close>

theorem extract_pool_address_counterexample:
  "claimed_pool_address
     [UiPartiallyDecodedInstruction METEORA_PROGRAM_ID [''a'', ''b''],
      UiPartiallyDecodedInstruction METEORA_PROGRAM_ID [''a'', ''b'', ''c'']] = None
   \<and> extract_pool_address
       (\<lambda>s. Inr (Some [UiPartiallyDecodedInstruction METEORA_PROGRAM_ID [''a'', ''b''],
                       UiPartiallyDecodedInstruction METEORA_PROGRAM_ID [''a'', ''b'', ''c'']]))
       ''s1'' = Some ''c''
   \<and> claimed_pool_address
       [UiPartiallyDecodedInstruction METEORA_PROGRAM_ID [''a'', ''b'', ''c''],
        UiPartiallyDecodedInstruction METEORA_PROGRAM_ID [''d'', ''e'', ''f'']] = Some ''c''
   \<and> extract_pool_addresses_v3
       (\<lambda>s. Inr (Some [UiPartiallyDecodedInstruction METEORA_PROGRAM_ID [''a'', ''b'', ''c''],
                       UiPartiallyDecodedInstruction METEORA_PROGRAM_ID [''d'', ''e'', ''f'']]))
       [(''s1'', 1::int)] = [''c'', ''f'']"
  by (simp add: claimed_pool_address_def extract_pool_address_def
        extract_pool_addresses_v3_def set_add_def)

section \<open>Proofs: the pipeline of meteora.py\<close>

lemma fee_loop_total:
  "total_fees (fee_loop w addr pools r) =
     foldl fadd (total_fees r)
       (map (get_pool_fees (get_earning w) (float_of_str w) addr) pools)"
  by (induction pools arbitrary: r) (simp_all add: Let_def)

lemma fee_loop_count:
  "pools_with_fees (fee_loop w addr pools r) =
     pools_with_fees r +
     int (length (filter (\<lambda>p. fge (get_pool_fees (get_earning w) (float_of_str w) addr p)
                                  fee_threshold) pools))"
  by (induction pools arbitrary: r) (simp_all add: Let_def)

lemma fee_loop_other:
  "wallet (fee_loop w addr pools r) = wallet r \<and>
   first_tx (fee_loop w addr pools r) = first_tx r \<and>
   active_weeks (fee_loop w addr pools r) = active_weeks r \<and>
   active_months (fee_loop w addr pools r) = active_months r \<and>
   cnft (fee_loop w addr pools r) = cnft r \<and>
   blacklist (fee_loop w addr pools r) = blacklist r"
  by (induction pools arbitrary: r) (simp_all add: Let_def)

text \<open>
  C9 (amended).  When the wallet address does not parse as a public key,
  \<^verbatim>\<open>process_wallet\<close> returns the record whose \<^verbatim>\<open>blacklist\<close> and
  \<^verbatim>\<open>cnft\<close> fields hold the results of the blacklist test and of the cNFT check, and
  whose other fields keep their initial values 0.0, 0, "N/A", 0 and 0.  The record is
  the all-defaults record exactly when both checks are negative.
\<close>

theorem process_wallet_unparsable:
  "pubkey_from_string w addr = Inl e \<Longrightarrow>
   process_wallet w addr bl =
     \<lparr>wallet = addr, total_fees = float_zero, pools_with_fees = 0, first_tx = ''N/A'',
      active_weeks = 0, active_months = 0,
      cnft = check_cnft (post_assets w) addr, blacklist = (addr \<in> bl)\<rparr>
   \<and> (process_wallet w addr bl = initial_result addr) =
       (\<not> check_cnft (post_assets w) addr \<and> addr \<notin> bl)"
  by (auto simp: process_wallet_def initial_result_def)

theorem process_wallet_unparsable_witness:
  "pubkey_from_string world_unparsable ''not a key'' = Inl ValueError
   \<and> process_wallet world_unparsable ''not a key'' {''not a key''} =
     \<lparr>wallet = ''not a key'', total_fees = float_zero, pools_with_fees = 0,
      first_tx = ''N/A'', active_weeks = 0, active_months = 0, cnft = True, blacklist = True\<rparr>
   \<and> process_wallet world_unparsable ''not a key'' {''not a key''} \<noteq>
       initial_result ''not a key''"
proof -
  have p: "pubkey_from_string world_unparsable ''not a key'' = Inl ValueError"
    by (simp add: world_unparsable_def)
  have c: "check_cnft (post_assets world_unparsable) ''not a key''"
    by (simp add: world_unparsable_def check_cnft_def)
  show ?thesis
    using p c process_wallet_unparsable [OF p, of "{''not a key''}"]
    by (simp add: initial_result_def)
qed

text \<open>
  C9 as stated fails: it ends with "the record is not all-defaults" for every address
  that does not parse.  For an address that is not blacklisted and holds no certificate
  the record is the all-defaults record.
\<close>

theorem process_wallet_unparsable_counterexample:
  "pubkey_from_string world_no_certificate ''not a key'' = Inl ValueError
   \<and> check_cnft (post_assets world_no_certificate) ''not a key'' = False
   \<and> process_wallet world_no_certificate ''not a key'' {} = initial_result ''not a key''"
  by (simp add: world_no_certificate_def check_cnft_def process_wallet_def initial_result_def)

text \<open>
  C4.  The fee loop of \<^verbatim>\<open>process_wallet\<close> adds to \<^verbatim>\<open>total_fees\<close> the value of
  \<^verbatim>\<open>get_pool_fees\<close> for every pool, by float addition in the order of the list, and
  adds to \<^verbatim>\<open>pools_with_fees\<close> the number of pools whose value is at least 0.01.
  \<^verbatim>\<open>get_pool_fees\<close> is 0.0 when the request fails, when the field is absent, and
  when the field has no float value; otherwise it is the float value of the field.  No
  pool ends the loop.
\<close>

theorem fee_loop_totals:
  "total_fees (fee_loop w addr pools r) =
     foldl fadd (total_fees r)
       (map (get_pool_fees (get_earning w) (float_of_str w) addr) pools)
   \<and> pools_with_fees (fee_loop w addr pools r) =
       pools_with_fees r +
       int (length (filter (\<lambda>p. fge (get_pool_fees (get_earning w) (float_of_str w) addr p)
                                    fee_threshold) pools))
   \<and> (\<forall>e. get_earning w addr pool = Inl e \<longrightarrow>
         get_pool_fees (get_earning w) (float_of_str w) addr pool = float_zero)
   \<and> (\<forall>kvs. get_earning w addr pool = Inr (JObj kvs) \<longrightarrow>
         map_of kvs ''total_fee_usd_claimed'' = None \<longrightarrow>
         get_pool_fees (get_earning w) (float_of_str w) addr pool = float_zero)
   \<and> (\<forall>kvs v e. get_earning w addr pool = Inr (JObj kvs) \<longrightarrow>
         map_of kvs ''total_fee_usd_claimed'' = Some v \<longrightarrow>
         py_float (float_of_str w) v = Inl e \<longrightarrow>
         get_pool_fees (get_earning w) (float_of_str w) addr pool = float_zero)
   \<and> (\<forall>kvs v f. get_earning w addr pool = Inr (JObj kvs) \<longrightarrow>
         map_of kvs ''total_fee_usd_claimed'' = Some v \<longrightarrow>
         py_float (float_of_str w) v = Inr f \<longrightarrow>
         get_pool_fees (get_earning w) (float_of_str w) addr pool = f)"
proof -
  have "\<forall>e. get_earning w addr pool = Inl e \<longrightarrow>
         get_pool_fees (get_earning w) (float_of_str w) addr pool = float_zero"
    by (simp add: get_pool_fees_def)
  moreover have "\<forall>kvs. get_earning w addr pool = Inr (JObj kvs) \<longrightarrow>
         map_of kvs ''total_fee_usd_claimed'' = None \<longrightarrow>
         get_pool_fees (get_earning w) (float_of_str w) addr pool = float_zero"
    by (simp add: get_pool_fees_def)
  moreover have "\<forall>kvs v e. get_earning w addr pool = Inr (JObj kvs) \<longrightarrow>
         map_of kvs ''total_fee_usd_claimed'' = Some v \<longrightarrow>
         py_float (float_of_str w) v = Inl e \<longrightarrow>
         get_pool_fees (get_earning w) (float_of_str w) addr pool = float_zero"
    by (simp add: get_pool_fees_def)
  moreover have "\<forall>kvs v f. get_earning w addr pool = Inr (JObj kvs) \<longrightarrow>
         map_of kvs ''total_fee_usd_claimed'' = Some v \<longrightarrow>
         py_float (float_of_str w) v = Inr f \<longrightarrow>
         get_pool_fees (get_earning w) (float_of_str w) addr pool = f"
    by (simp add: get_pool_fees_def)
  ultimately show ?thesis
    using fee_loop_total [of w addr pools r] fee_loop_count [of w addr pools r] by blast
qed

lemma fee_loop_example:
  "fee_loop world_fees ''W'' [''poolA'', ''poolB'', ''poolC''] (initial_result ''W'') =
     (initial_result ''W'')\<lparr>total_fees := to_float (502 / 100), pools_with_fees := 2\<rparr>"
  by code_simp

lemma fee_loop_example_failures:
  "fee_loop world_fees ''W'' [''poolA'', ''poolD'', ''poolB'', ''poolE'', ''poolF'', ''poolC'']
     (initial_result ''W'') =
     (initial_result ''W'')\<lparr>total_fees := to_float (502 / 100), pools_with_fees := 2\<rparr>"
  by code_simp

theorem fee_loop_totals_witness:
  "foldl fadd float_zero
     (map (get_pool_fees (get_earning world_fees) (float_of_str world_fees) ''W'')
        [''poolA'', ''poolB'', ''poolC'']) = to_float (502 / 100)
   \<and> int (length (filter
        (\<lambda>p. fge (get_pool_fees (get_earning world_fees) (float_of_str world_fees) ''W'' p)
               fee_threshold) [''poolA'', ''poolB'', ''poolC''])) = 2
   \<and> foldl fadd float_zero
       (map (get_pool_fees (get_earning world_fees) (float_of_str world_fees) ''W'')
          [''poolA'', ''poolD'', ''poolB'', ''poolE'', ''poolF'', ''poolC'']) = to_float (502 / 100)
   \<and> get_pool_fees (get_earning world_fees) (float_of_str world_fees) ''W'' ''poolD'' = float_zero
   \<and> get_pool_fees (get_earning world_fees) (float_of_str world_fees) ''W'' ''poolE'' = float_zero
   \<and> get_pool_fees (get_earning world_fees) (float_of_str world_fees) ''W'' ''poolF'' = float_zero"
proof -
  let ?fee = "get_pool_fees (get_earning world_fees) (float_of_str world_fees) ''W''"
  let ?r = "initial_result ''W''"
  have z: "total_fees ?r = float_zero" "pools_with_fees ?r = 0"
    by (simp_all add: initial_result_def)
  note t3 = fee_loop_totals [of world_fees "''W''" "[''poolA'', ''poolB'', ''poolC'']" ?r "''poolD''"]
  note t6 = fee_loop_totals [of world_fees "''W''"
              "[''poolA'', ''poolD'', ''poolB'', ''poolE'', ''poolF'', ''poolC'']" ?r "''poolE''"]
  note t0 = fee_loop_totals [of world_fees "''W''" "[]" ?r "''poolF''"]
  have a: "foldl fadd float_zero (map ?fee [''poolA'', ''poolB'', ''poolC'']) = to_float (502 / 100)"
    using t3 [THEN conjunct1] by (simp only: fee_loop_example z) simp
  have b: "int (length (filter (\<lambda>p. fge (?fee p) fee_threshold)
             [''poolA'', ''poolB'', ''poolC''])) = 2"
    using t3 [THEN conjunct2, THEN conjunct1] by (simp only: fee_loop_example z) simp
  have c: "foldl fadd float_zero
             (map ?fee [''poolA'', ''poolD'', ''poolB'', ''poolE'', ''poolF'', ''poolC''])
           = to_float (502 / 100)"
    using t6 [THEN conjunct1] by (simp only: fee_loop_example_failures z) simp
  have gd: "get_earning world_fees ''W'' ''poolD'' = Inr (JObj [(''total_fee_usd_claimed'', JNull)])"
    by (simp add: world_fees_def)
  have ge: "get_earning world_fees ''W'' ''poolE'' = Inr (JObj [(''other'', JInt 7)])"
    by (simp add: world_fees_def)
  have gf: "get_earning world_fees ''W'' ''poolF'' = Inl RequestException"
    by (simp add: world_fees_def)
  have d: "?fee ''poolD'' = float_zero"
    using t3 [THEN conjunct2, THEN conjunct2, THEN conjunct2, THEN conjunct2, THEN conjunct1,
              rule_format, OF gd, of JNull TypeError]
    by simp
  have e: "?fee ''poolE'' = float_zero"
    using t6 [THEN conjunct2, THEN conjunct2, THEN conjunct2, THEN conjunct1,
              rule_format, OF ge]
    by simp
  have f: "?fee ''poolF'' = float_zero"
    using t0 [THEN conjunct2, THEN conjunct2, THEN conjunct1, rule_format, OF gf] .
  from a b c d e f show ?thesis by simp
qed


section \<open>Proofs: activity metrics\<close>

text \<open>The calendar model on dates whose values Python gives.\<close>

lemma calendar_examples:
  "utcfromtimestamp (Some 1700000000) = Inr \<lparr>year = 2023, month = 11, day = 14\<rparr>"
  "utcfromtimestamp (Some (- 1)) = Inr \<lparr>year = 1969, month = 12, day = 31\<rparr>"
  "ord2ymd 1 = \<lparr>year = 1, month = 1, day = 1\<rparr>"
  "ord2ymd MAXORDINAL = \<lparr>year = 9999, month = 12, day = 31\<rparr>"
  "ymd2ord 1970 1 1 = 719163"
  "ord2ymd (ymd2ord 2024 2 29) = \<lparr>year = 2024, month = 2, day = 29\<rparr>"
  "isocalendar \<lparr>year = 2021, month = 1, day = 1\<rparr> = (2020, 53, 5)"
  "isocalendar \<lparr>year = 2024, month = 12, day = 30\<rparr> = (2025, 1, 1)"
  "isocalendar \<lparr>year = 2023, month = 11, day = 14\<rparr> = (2023, 46, 2)"
  "strftime_dmY \<lparr>year = 2022, month = 4, day = 5\<rparr> = ''05.04.2022''"
  "strftime_dmY \<lparr>year = 999, month = 12, day = 31\<rparr> = ''31.12.999''"
  "strftime_dmY \<lparr>year = 1, month = 1, day = 1\<rparr> = ''01.01.1''"
  "utcfromtimestamp (Some (- 30610224001)) = Inr \<lparr>year = 999, month = 12, day = 31\<rparr>"
  by code_simp+

lemma utcfromtimestamp_in_range:
  "in_datetime_range t \<Longrightarrow> utcfromtimestamp (Some t) = Inr (utc_date t)"
proof -
  assume r: "in_datetime_range t"
  have "(- 62135596800) div 86400 \<le> t div (86400::int)"
    using r unfolding in_datetime_range_def by (intro zdiv_mono1) simp_all
  moreover have "t div 86400 \<le> 253402300799 div (86400::int)"
    using r unfolding in_datetime_range_def by (intro zdiv_mono1) simp_all
  ultimately have "- 719162 \<le> t div 86400" "t div 86400 \<le> 2932896"
    by simp_all
  then show ?thesis
    by (simp add: utc_date_def MAXORDINAL_def Let_def)
qed

lemma utcfromtimestamp_out_of_range:
  "\<not> in_datetime_range t \<Longrightarrow> utcfromtimestamp (Some t) = Inl ValueError"
proof -
  assume "\<not> in_datetime_range t"
  then consider "t \<le> - 62135596801" | "253402300800 \<le> t"
    unfolding in_datetime_range_def by linarith
  then have "t div 86400 < - 719162 \<or> 2932896 < t div 86400"
  proof cases
    case 1
    then have "t div 86400 \<le> (- 62135596801) div (86400::int)"
      by (intro zdiv_mono1) simp_all
    then show ?thesis by simp
  next
    case 2
    then have "253402300800 div (86400::int) \<le> t div 86400"
      by (intro zdiv_mono1) simp_all
    then show ?thesis by simp
  qed
  then show ?thesis
    by (auto simp: MAXORDINAL_def Let_def)
qed

declare utcfromtimestamp.simps(2) [simp del]

text \<open>
  The year that \<^verbatim>\<open>_ord2ymd\<close> gives lies between 1000 and 9999 for the ordinals
  from 1 January 1000 to 31 December 9999; there the year has four digits, and
  \<^verbatim>\<open>strftime('%d.%m.%Y')\<close> is DD.MM.YYYY.
\<close>

lemma ord2ymd_year_cases:
  assumes "a = (n - 1) div 146097" "ra = (n - 1) mod 146097"
    and "b = ra div 36524" "rb = ra mod 36524"
    and "c = rb div 1461" "rc = rb mod 1461"
    and "d = rc div 365" "rd = rc mod 365"
  shows "year (ord2ymd n) =
           400 * a + 100 * b + 4 * c + d + (if d = 4 \<or> b = 4 then 0 else 1)"
  unfolding ord2ymd_def Let_def
  apply (simp only: assms [symmetric])
  apply (simp only: if_distrib [of year] date.simps if_cancel)
  apply (simp split: if_splits)
  done

lemma div_mod_decomposition:
  fixes m k :: int
  assumes "0 < k"
  shows "m = k * (m div k) + m mod k" "0 \<le> m mod k" "m mod k < k"
  using assms by simp_all

lemma year_upper:
  fixes m a ra b rb c rc d rd :: int
  assumes "m \<le> 3652058"
    and "m = 146097 * a + ra" "0 \<le> ra" "ra < 146097"
    and "ra = 36524 * b + rb" "0 \<le> rb" "rb < 36524"
    and "rb = 1461 * c + rc" "0 \<le> rc" "rc < 1461"
    and "rc = 365 * d + rd" "0 \<le> rd" "rd < 365"
  shows "400 * a + 100 * b + 4 * c + d + 1 \<le> 9999"
proof -
  have a: "a \<le> 24" using assms by linarith
  have b: "b \<le> 4" using assms by linarith
  have c: "c \<le> 24" using assms by linarith
  have d: "d \<le> 4" using assms by linarith
  show ?thesis
  proof (cases "a \<le> 23")
    case True
    then show ?thesis using b c d by linarith
  next
    case False
    then have a24: "a = 24" using a by linarith
    then have ra: "ra \<le> 145730" using assms by linarith
    then have b3: "b \<le> 3" using assms by linarith
    show ?thesis
    proof (cases "b \<le> 2")
      case True
      then show ?thesis using a24 c d by linarith
    next
      case False
      then have b': "b = 3" using b3 by linarith
      then have rb: "rb \<le> 36158" using ra assms by linarith
      show ?thesis
      proof (cases "c \<le> 23")
        case True
        then show ?thesis using a24 b' d by linarith
      next
        case False
        then have c': "c = 24" using c by linarith
        then have "rc \<le> 1094" using rb assms by linarith
        then have "d \<le> 2" using assms by linarith
        then show ?thesis using a24 b' c' by linarith
      qed
    qed
  qed
qed

lemma year_lower:
  fixes m a ra b rb c rc d rd :: int
  assumes "364877 \<le> m"
    and "m = 146097 * a + ra" "0 \<le> ra" "ra < 146097"
    and "ra = 36524 * b + rb" "0 \<le> rb" "rb < 36524"
    and "rb = 1461 * c + rc" "0 \<le> rc" "rc < 1461"
    and "rc = 365 * d + rd" "0 \<le> rd" "rd < 365"
  shows "1000 \<le> 400 * a + 100 * b + 4 * c + d + (if d = 4 \<or> b = 4 then 0 else 1)"
proof -
  have a: "2 \<le> a" using assms by linarith
  have b: "0 \<le> b" using assms by linarith
  have c: "0 \<le> c" using assms by linarith
  have d: "0 \<le> d" using assms by linarith
  show ?thesis
  proof (cases "3 \<le> a")
    case True
    then show ?thesis using b c d by (auto split: if_splits)
  next
    case False
    then have a2: "a = 2" using a by linarith
    then have ra: "72683 \<le> ra" using assms by linarith
    then have b1: "1 \<le> b" using assms by linarith
    show ?thesis
    proof (cases "2 \<le> b")
      case True
      then show ?thesis using a2 c d by (auto split: if_splits)
    next
      case False
      then have b': "b = 1" using b1 by linarith
      then have rb: "36159 \<le> rb" using ra assms by linarith
      then have c': "c = 24" using assms by linarith
      then have "1095 \<le> rc" using rb assms by linarith
      then have "3 \<le> d" using assms by linarith
      then show ?thesis using a2 b' c' by (auto split: if_splits)
    qed
  qed
qed

lemma ord2ymd_year_range:
  assumes "364878 \<le> n" "n \<le> 3652059"
  shows "1000 \<le> year (ord2ymd n) \<and> year (ord2ymd n) \<le> 9999"
proof -
  define m where "m = n - 1"
  define a where "a = m div 146097"
  define ra where "ra = m mod 146097"
  define b where "b = ra div 36524"
  define rb where "rb = ra mod 36524"
  define c where "c = rb div 1461"
  define rc where "rc = rb mod 1461"
  define d where "d = rc div 365"
  define rd where "rd = rc mod 365"
  have m: "364877 \<le> m" "m \<le> 3652058"
    using assms by (simp_all add: m_def)
  have e: "m = 146097 * a + ra" "0 \<le> ra" "ra < 146097"
    "ra = 36524 * b + rb" "0 \<le> rb" "rb < 36524"
    "rb = 1461 * c + rc" "0 \<le> rc" "rc < 1461"
    "rc = 365 * d + rd" "0 \<le> rd" "rd < 365"
    unfolding a_def ra_def b_def rb_def c_def rc_def d_def rd_def
    by (rule div_mod_decomposition; simp)+
  have y: "year (ord2ymd n) =
             400 * a + 100 * b + 4 * c + d + (if d = 4 \<or> b = 4 then 0 else 1)"
    by (rule ord2ymd_year_cases [where ra = ra and rb = rb and rc = rc and rd = rd])
       (simp_all only: a_def ra_def b_def rb_def c_def rc_def d_def rd_def m_def)
  have "400 * a + 100 * b + 4 * c + d + 1 \<le> 9999"
    using m(2) e by (rule year_upper)
  moreover have "1000 \<le> 400 * a + 100 * b + 4 * c + d + (if d = 4 \<or> b = 4 then 0 else 1)"
    using m(1) e by (rule year_lower)
  ultimately show ?thesis
    unfolding y by (simp split: if_splits)
qed

lemma utc_date_year_range:
  assumes "four_digit_year t"
  shows "1000 \<le> year (utc_date t) \<and> year (utc_date t) \<le> 9999"
proof -
  have "(- 30610224000) div 86400 \<le> t div (86400::int)"
    using assms unfolding four_digit_year_def by (intro zdiv_mono1) simp_all
  moreover have "t div 86400 \<le> 253402300799 div (86400::int)"
    using assms unfolding four_digit_year_def by (intro zdiv_mono1) simp_all
  ultimately have "364878 \<le> t div 86400 + 719163" "t div 86400 + 719163 \<le> 3652059"
    by simp_all
  then show ?thesis
    unfolding utc_date_def by (rule ord2ymd_year_range)
qed

lemma show_nat_four:
  assumes "1000 \<le> y" "y \<le> 9999"
  shows "show_nat (nat y) =
           [digit_char (y div 1000), digit_char (y div 100), digit_char (y div 10), digit_char y]"
proof -
  obtain n where n: "y = int n" using assms by (cases y) simp_all
  have b: "1000 \<le> n" "n \<le> 9999" using assms n by simp_all
  have d: "n div 10 div 10 = n div 100" "n div 100 div 10 = n div 1000"
    by (simp_all add: div_mult2_eq [symmetric])
  have a: "n div 1000 < 10" "\<not> n div 100 < 10" "\<not> n div 10 < 10" "\<not> n < 10"
    using b by simp_all
  have s3: "show_nat (n div 1000) = [digit_char (int (n div 1000))]"
    by (subst show_nat.simps) (simp only: a if_True)
  have s2: "show_nat (n div 100) = [digit_char (int (n div 1000)), digit_char (int (n div 100))]"
    by (subst show_nat.simps) (simp only: a if_False d s3 append.simps)
  have s1: "show_nat (n div 10) =
              [digit_char (int (n div 1000)), digit_char (int (n div 100)),
               digit_char (int (n div 10))]"
    by (subst show_nat.simps) (simp only: a if_False d s2 append.simps)
  have "show_nat n = [digit_char (int (n div 1000)), digit_char (int (n div 100)),
                      digit_char (int (n div 10)), digit_char (int n)]"
    by (subst show_nat.simps) (simp only: a if_False s1 append.simps)
  then show ?thesis
    by (simp add: n zdiv_int del: show_nat.simps)
qed

lemma strftime_dmY_four:
  "four_digit_year t \<Longrightarrow> strftime_dmY (utc_date t) = claimed_first_tx (utc_date t)"
  using utc_date_year_range [of t]
  by (simp add: strftime_dmY_def claimed_first_tx_def show_nat_four del: show_nat.simps)

lemma activity_loop_in_range:
  "\<forall>t \<in> set L. in_datetime_range t \<Longrightarrow>
   activity_loop (map Some L) W M =
     Inr (W \<union> iso_year_week ` set L, M \<union> year_month ` set L)"
proof (induction L arbitrary: W M)
  case Nil
  show ?case by simp
next
  case (Cons t L)
  then have t: "utcfromtimestamp (Some t) = Inr (utc_date t)"
    by (simp add: utcfromtimestamp_in_range)
  obtain y wk wd where iso: "isocalendar (utc_date t) = (y, wk, wd)"
    by (cases "isocalendar (utc_date t)") auto
  from Cons show ?case
    by (simp add: t iso iso_year_week_def year_month_def)
qed

lemma calculate_activity_metrics_in_range:
  "\<forall>t \<in> set L. in_datetime_range t \<Longrightarrow>
   calculate_activity_metrics (map Some L) =
     Inr (card (iso_year_week ` set L), card (year_month ` set L))"
  by (simp add: calculate_activity_metrics_def activity_loop_in_range)

lemma Min_insert_min:
  "finite S \<Longrightarrow> Min (insert (min a b) S) = Min (insert a (insert b S))"
  by (cases "S = {}") (simp_all add: min.assoc)

lemma min_loop_Some:
  "min_loop (Some a) (map Some L) = Inr (Some (Min (insert a (set L))))"
proof (induction L arbitrary: a)
  case Nil
  show ?case by simp
next
  case (Cons b L)
  have "(if b < a then b else a) = min a b" by (simp add: min_def)
  then show ?case by (simp add: Cons Min_insert_min del: Min_insert)
qed

lemma first_tx_date_in_range:
  assumes "\<forall>t \<in> set L. in_datetime_range t"
  shows "first_tx_date (map Some L) =
           Inr (if L = [] then None else Some (strftime_dmY (utc_date (Min (set L)))))"
proof (cases L)
  case Nil
  then show ?thesis by simp
next
  case (Cons a L')
  have "Min (set L) \<in> set L" using Cons by (intro Min_in) simp_all
  then have r: "in_datetime_range (Min (set L))" using assms by blast
  then have "utcfromtimestamp (Some (Min (insert a (set L')))) = Inr (utc_date (Min (insert a (set L'))))"
    using Cons by (simp add: utcfromtimestamp_in_range)
  then show ?thesis
    by (simp add: Cons min_loop_Some del: Min_insert)
qed

lemma process_wallet_activity:
  assumes pk: "pubkey_from_string w addr = Inr pk"
    and ts: "meteora_timestamps w pk = map Some L"
    and r: "\<forall>t \<in> set L. in_datetime_range t"
  shows "first_tx (process_wallet w addr bl) =
           (if L = [] then ''N/A'' else strftime_dmY (utc_date (Min (set L))))
         \<and> active_weeks (process_wallet w addr bl) = card (iso_year_week ` set L)
         \<and> active_months (process_wallet w addr bl) = card (year_month ` set L)"
proof -
  have ts': "map snd (filter_meteora_transactions (get_transaction_filter w)
                (get_transactions (get_signatures_for_address w) pk)) = map Some L"
    using ts by (simp add: meteora_timestamps_def)
  show ?thesis
    unfolding process_wallet_def Let_def
    by (simp add: pk ts' first_tx_date_in_range [OF r] calculate_activity_metrics_in_range [OF r]
          fee_loop_other initial_result_def)
qed

text \<open>
  C5 (amended).  When the wallet address parses and the timestamps of the protocol
  transactions all lie in the range of \<^verbatim>\<open>datetime\<close>, the record returned by
  \<^verbatim>\<open>process_wallet\<close> has \<^verbatim>\<open>first_tx\<close> "N/A" for no timestamp and else the
  UTC date of the least timestamp as \<^verbatim>\<open>strftime('%d.%m.%Y')\<close> renders it, which is
  DD.MM.YYYY when the least timestamp lies in the years 1000 to 9999;
  \<^verbatim>\<open>active_weeks\<close> is the number of distinct (ISO year, ISO week) pairs and
  \<^verbatim>\<open>active_months\<close> the number of distinct (year, month) pairs of the timestamps'
  UTC dates (both 0 for no timestamp).
\<close>

theorem activity_metrics_spec:
  "pubkey_from_string w addr = Inr pk \<Longrightarrow>
   meteora_timestamps w pk = map Some L \<Longrightarrow>
   \<forall>t \<in> set L. in_datetime_range t \<Longrightarrow>
     first_tx (process_wallet w addr bl) =
       (if L = [] then ''N/A'' else strftime_dmY (utc_date (Min (set L))))
     \<and> (L \<noteq> [] \<and> four_digit_year (Min (set L)) \<longrightarrow>
          first_tx (process_wallet w addr bl) = claimed_first_tx (utc_date (Min (set L))))
     \<and> active_weeks (process_wallet w addr bl) = card (iso_year_week ` set L)
     \<and> active_months (process_wallet w addr bl) = card (year_month ` set L)
     \<and> first_tx_date (map Some L) =
         Inr (if L = [] then None else Some (strftime_dmY (utc_date (Min (set L)))))
     \<and> calculate_activity_metrics (map Some L) =
         Inr (card (iso_year_week ` set L), card (year_month ` set L))"
proof -
  assume pk: "pubkey_from_string w addr = Inr pk"
    and ts: "meteora_timestamps w pk = map Some L"
    and r: "\<forall>t \<in> set L. in_datetime_range t"
  note a = process_wallet_activity [OF pk ts r, of bl]
  have "L \<noteq> [] \<and> four_digit_year (Min (set L)) \<longrightarrow>
          first_tx (process_wallet w addr bl) = claimed_first_tx (utc_date (Min (set L)))"
    using a [THEN conjunct1] by (simp add: strftime_dmY_four)
  then show ?thesis
    using a first_tx_date_in_range [OF r] calculate_activity_metrics_in_range [OF r]
    by blast
qed

lemma example_dates:
  "strftime_dmY (utc_date (Min (set [1700000000, 1650000000, 1700000100]))) = ''15.04.2022''"
  "claimed_first_tx \<lparr>year = 2022, month = 4, day = 15\<rparr> = ''15.04.2022''"
  "claimed_first_tx (utc_date (Min (set [1700000000, 1650000000, 1700000100]))) = ''15.04.2022''"
  "card (iso_year_week ` set [1700000000, 1650000000, 1700000100]) = 2"
  "card (year_month ` set [1700000000, 1650000000, 1700000100]) = 2"
  by code_simp+

lemma meteora_timestamps_world_history:
  "meteora_timestamps (world_history bts) pk = filter truthy_time bts"
  by (simp add: meteora_timestamps_def world_history_def get_transactions_def
        filter_meteora_transactions_def filter_loop_eq protocol_tx_def
        is_meteora_instruction_def filter_map o_def)

theorem activity_metrics_spec_witness:
  "first_tx (process_wallet
      (world_history [Some 1700000000, None, Some 1650000000, Some 1700000100]) ''W'' {})
     = ''15.04.2022''
   \<and> active_weeks (process_wallet
      (world_history [Some 1700000000, None, Some 1650000000, Some 1700000100]) ''W'' {}) = 2
   \<and> active_months (process_wallet
      (world_history [Some 1700000000, None, Some 1650000000, Some 1700000100]) ''W'' {}) = 2
   \<and> first_tx (process_wallet (world_history []) ''W'' {}) = ''N/A''
   \<and> active_weeks (process_wallet (world_history []) ''W'' {}) = 0
   \<and> active_months (process_wallet (world_history []) ''W'' {}) = 0
   \<and> four_digit_year 1650000000
   \<and> first_tx (process_wallet
        (world_history [Some 1700000000, None, Some 1650000000, Some 1700000100]) ''W'' {})
       = claimed_first_tx \<lparr>year = 2022, month = 4, day = 15\<rparr>"
proof -
  let ?w = "world_history [Some 1700000000, None, Some 1650000000, Some 1700000100]"
  let ?L = "[1700000000, 1650000000, 1700000100] :: int list"
  have pk: "pubkey_from_string ?w ''W'' = Inr ''W''"
    and pk0: "pubkey_from_string (world_history []) ''W'' = Inr ''W''"
    by (simp_all add: world_history_def)
  have ts: "meteora_timestamps ?w ''W'' = map Some ?L"
    and ts0: "meteora_timestamps (world_history []) ''W'' = map Some []"
    by (simp_all add: meteora_timestamps_world_history)
  have r: "\<forall>t \<in> set ?L. in_datetime_range t"
    and r0: "\<forall>t \<in> set ([] :: int list). in_datetime_range t"
    by (simp_all add: in_datetime_range_def)
  have f: "four_digit_year (Min (set ?L))" "four_digit_year 1650000000"
    by (simp_all add: four_digit_year_def)
  show ?thesis
    using activity_metrics_spec [OF pk ts r, of "{}"] activity_metrics_spec [OF pk0 ts0 r0, of "{}"] f
    by (simp only: example_dates) simp
qed

lemma example_year_999:
  "strftime_dmY (utc_date (Min (set [- 30610224001]))) = ''31.12.999''"
  "claimed_first_tx (utc_date (- 30610224001)) = ''31.12.0999''"
  by code_simp+

text \<open>
  C5 as stated fails for a timestamp beyond the year 9999: the list is not empty, and
  the record keeps "N/A" and the counts 0, where one timestamp has one week and one
  month.  It fails also for a timestamp before the year 1000, here the last second of
  the year 999: \<^verbatim>\<open>first_tx\<close> is "31.12.999", which is not DD.MM.YYYY.
\<close>

theorem activity_metrics_counterexample:
  "meteora_timestamps (world_history [Some 253402300800]) ''W'' = [Some 253402300800]
   \<and> first_tx (process_wallet (world_history [Some 253402300800]) ''W'' {}) = ''N/A''
   \<and> active_weeks (process_wallet (world_history [Some 253402300800]) ''W'' {}) = 0
   \<and> active_months (process_wallet (world_history [Some 253402300800]) ''W'' {}) = 0
   \<and> card (iso_year_week ` set [253402300800]) = 1
   \<and> card (year_month ` set [253402300800]) = 1
   \<and> in_datetime_range (- 30610224001)
   \<and> meteora_timestamps (world_history [Some (- 30610224001)]) ''W'' = [Some (- 30610224001)]
   \<and> first_tx (process_wallet (world_history [Some (- 30610224001)]) ''W'' {}) = ''31.12.999''
   \<and> claimed_first_tx (utc_date (- 30610224001)) = ''31.12.0999''"
proof -
  let ?w = "world_history [Some 253402300800]"
  have ts: "meteora_timestamps ?w ''W'' = [Some 253402300800]"
    by (simp add: meteora_timestamps_world_history)
  then have ts': "map snd (filter_meteora_transactions (get_transaction_filter ?w)
                (get_transactions (get_signatures_for_address ?w) ''W'')) = [Some 253402300800]"
    by (simp add: meteora_timestamps_def)
  have u: "utcfromtimestamp (Some 253402300800) = Inl ValueError"
    by (rule utcfromtimestamp_out_of_range) (simp add: in_datetime_range_def)
  have pk: "pubkey_from_string ?w ''W'' = Inr ''W''"
    by (simp add: world_history_def)
  have p: "process_wallet ?w ''W'' {} = initial_result ''W''"
    unfolding process_wallet_def Let_def
    by (simp add: pk ts' u) (simp add: world_history_def check_cnft_def initial_result_def)
  let ?v = "world_history [Some (- 30610224001)]"
  have pkv: "pubkey_from_string ?v ''W'' = Inr ''W''"
    by (simp add: world_history_def)
  have tsv: "meteora_timestamps ?v ''W'' = map Some [- 30610224001]"
    by (simp add: meteora_timestamps_world_history)
  have rv: "\<forall>t \<in> set [- 30610224001]. in_datetime_range t"
    by (simp add: in_datetime_range_def)
  have fv: "first_tx (process_wallet ?v ''W'' {}) = ''31.12.999''"
    using process_wallet_activity [OF pkv tsv rv, of "{}", THEN conjunct1]
    by (simp only: example_year_999) simp
  show ?thesis
    using tsv rv fv by (simp add: ts p initial_result_def example_year_999)
qed

text \<open>
  The fee fields of the record that \<^verbatim>\<open>process_wallet\<close> returns are those of
  the fee loop over the extracted pools.
\<close>

lemma process_wallet_fees:
  assumes pk: "pubkey_from_string w addr = Inr pk"
    and ts: "meteora_timestamps w pk = map Some L"
    and r: "\<forall>t \<in> set L. in_datetime_range t"
  shows "total_fees (process_wallet w addr bl) =
           foldl fadd float_zero
             (map (get_pool_fees (get_earning w) (float_of_str w) addr)
                (pool_addresses (get_transaction_extract w)
                   (filter_meteora_transactions (get_transaction_filter w)
                      (get_transactions (get_signatures_for_address w) pk))))
         \<and> pools_with_fees (process_wallet w addr bl) =
           int (length (filter
             (\<lambda>p. fge (get_pool_fees (get_earning w) (float_of_str w) addr p) fee_threshold)
             (pool_addresses (get_transaction_extract w)
                (filter_meteora_transactions (get_transaction_filter w)
                   (get_transactions (get_signatures_for_address w) pk)))))"
proof -
  have ts': "map snd (filter_meteora_transactions (get_transaction_filter w)
                (get_transactions (get_signatures_for_address w) pk)) = map Some L"
    using ts by (simp add: meteora_timestamps_def)
  show ?thesis
    unfolding process_wallet_def Let_def
    by (simp add: pk ts' first_tx_date_in_range [OF r] calculate_activity_metrics_in_range [OF r]
          fee_loop_total fee_loop_count initial_result_def)
qed

text \<open>
  C7 (amended).  For timestamps in the range of \<^verbatim>\<open>datetime\<close>, appending a
  timestamp to the list never lowers the week count or the month count of
  \<^verbatim>\<open>calculate_activity_metrics\<close>, and leaves a count unchanged when the timestamp
  falls into a week, respectively a month, that the list already occupies.
\<close>

theorem activity_monotone:
  "\<forall>s \<in> set L. in_datetime_range s \<Longrightarrow> in_datetime_range t \<Longrightarrow>
   \<exists>wk mo wk' mo'.
     calculate_activity_metrics (map Some L) = Inr (wk, mo)
     \<and> calculate_activity_metrics (map Some (L @ [t])) = Inr (wk', mo')
     \<and> wk \<le> wk' \<and> mo \<le> mo'
     \<and> (iso_year_week t \<in> iso_year_week ` set L \<longrightarrow> wk' = wk)
     \<and> (year_month t \<in> year_month ` set L \<longrightarrow> mo' = mo)"
proof -
  assume rL: "\<forall>s \<in> set L. in_datetime_range s" and rt: "in_datetime_range t"
  then have rLt: "\<forall>s \<in> set (L @ [t]). in_datetime_range s" by simp
  have a: "calculate_activity_metrics (map Some L) =
             Inr (card (iso_year_week ` set L), card (year_month ` set L))"
    by (rule calculate_activity_metrics_in_range [OF rL])
  have b: "calculate_activity_metrics (map Some (L @ [t])) =
             Inr (card (insert (iso_year_week t) (iso_year_week ` set L)),
                  card (insert (year_month t) (year_month ` set L)))"
    using calculate_activity_metrics_in_range [OF rLt] by simp
  have c: "card (iso_year_week ` set L) \<le> card (insert (iso_year_week t) (iso_year_week ` set L))"
    by (intro card_mono) auto
  have d: "card (year_month ` set L) \<le> card (insert (year_month t) (year_month ` set L))"
    by (intro card_mono) auto
  have e: "iso_year_week t \<in> iso_year_week ` set L \<longrightarrow>
             card (insert (iso_year_week t) (iso_year_week ` set L)) = card (iso_year_week ` set L)"
    by (simp add: insert_absorb)
  have f: "year_month t \<in> year_month ` set L \<longrightarrow>
             card (insert (year_month t) (year_month ` set L)) = card (year_month ` set L)"
    by (simp add: insert_absorb)
  from a b c d e f show ?thesis by blast
qed

lemma activity_loop_out_of_range:
  "\<forall>s \<in> set L. in_datetime_range s \<Longrightarrow> \<not> in_datetime_range t \<Longrightarrow>
   activity_loop (map Some (L @ t # R)) W M = Inl ValueError"
proof (induction L arbitrary: W M)
  case Nil
  then show ?case by (simp add: utcfromtimestamp_out_of_range)
next
  case (Cons s L)
  obtain y wk wd where iso: "isocalendar (utc_date s) = (y, wk, wd)"
    by (cases "isocalendar (utc_date s)") auto
  from Cons show ?case
    by (simp add: utcfromtimestamp_in_range iso)
qed

lemma calculate_activity_metrics_out_of_range:
  "\<forall>s \<in> set L. in_datetime_range s \<Longrightarrow> \<not> in_datetime_range t \<Longrightarrow>
   calculate_activity_metrics (map Some (L @ t # R)) = Inl ValueError"
  by (simp add: calculate_activity_metrics_def activity_loop_out_of_range
           del: map_append)

lemma example_same_week:
  "calculate_activity_metrics (map Some [1700000000]) = Inr (1, 1)"
  "iso_year_week 1700000100 \<in> iso_year_week ` set [1700000000]"
  "year_month 1700000100 \<in> year_month ` set [1700000000]"
  by code_simp+

theorem activity_monotone_witness:
  "calculate_activity_metrics (map Some [1700000000]) = Inr (1, 1)
   \<and> calculate_activity_metrics (map Some ([1700000000] @ [1700000100])) = Inr (1, 1)"
proof -
  have rL: "\<forall>s \<in> set [1700000000]. in_datetime_range s"
    and rt: "in_datetime_range 1700000100"
    by (simp_all add: in_datetime_range_def)
  from activity_monotone [OF rL rt] obtain wk mo wk' mo' where
    a: "calculate_activity_metrics (map Some [1700000000]) = Inr (wk, mo)"
    and b: "calculate_activity_metrics (map Some ([1700000000] @ [1700000100])) = Inr (wk', mo')"
    and c: "iso_year_week 1700000100 \<in> iso_year_week ` set [1700000000] \<longrightarrow> wk' = wk"
    and d: "year_month 1700000100 \<in> year_month ` set [1700000000] \<longrightarrow> mo' = mo"
    by blast
  from a example_same_week(1) have "wk = 1" "mo = 1" by simp_all
  with c d example_same_week(2,3) have "wk' = 1" "mo' = 1" by simp_all
  with b example_same_week(1) show ?thesis by simp
qed

text \<open>
  C7 as stated fails when the added timestamp lies beyond the year 9999:
  \<^verbatim>\<open>calculate_activity_metrics\<close> raises instead of returning counts, and the record
  of \<^verbatim>\<open>process_wallet\<close> falls from one active week and month to none.
\<close>

theorem activity_monotone_counterexample:
  "calculate_activity_metrics (map Some [86400]) = Inr (1, 1)
   \<and> calculate_activity_metrics (map Some ([86400] @ [253402300800])) = Inl ValueError
   \<and> active_weeks (process_wallet (world_history [Some 86400]) ''W'' {}) = 1
   \<and> active_months (process_wallet (world_history [Some 86400]) ''W'' {}) = 1
   \<and> active_weeks (process_wallet (world_history [Some 86400, Some 253402300800]) ''W'' {}) = 0
   \<and> active_months (process_wallet (world_history [Some 86400, Some 253402300800]) ''W'' {}) = 0"
proof -
  let ?w1 = "world_history [Some 86400]"
  let ?w2 = "world_history [Some 86400, Some 253402300800]"
  have r: "\<forall>s \<in> set [86400]. in_datetime_range s" and nr: "\<not> in_datetime_range 253402300800"
    by (simp_all add: in_datetime_range_def)
  have a: "calculate_activity_metrics (map Some [86400]) = Inr (1, 1)"
    using calculate_activity_metrics_in_range [OF r] by simp
  have b: "calculate_activity_metrics (map Some ([86400] @ [253402300800])) = Inl ValueError"
    using calculate_activity_metrics_out_of_range [OF r nr, of "[]"] by simp
  have pk1: "pubkey_from_string ?w1 ''W'' = Inr ''W''" and pk2: "pubkey_from_string ?w2 ''W'' = Inr ''W''"
    by (simp_all add: world_history_def)
  have ts1: "meteora_timestamps ?w1 ''W'' = map Some [86400]"
    by (simp add: meteora_timestamps_world_history)
  have ts2: "map snd (filter_meteora_transactions (get_transaction_filter ?w2)
                (get_transactions (get_signatures_for_address ?w2) ''W''))
             = [Some 86400, Some 253402300800]"
    using meteora_timestamps_world_history [of "[Some 86400, Some 253402300800]" "''W''"]
    by (simp add: meteora_timestamps_def)
  have c: "active_weeks (process_wallet ?w1 ''W'' {}) = 1
           \<and> active_months (process_wallet ?w1 ''W'' {}) = 1"
    using process_wallet_activity [OF pk1 ts1 r, of "{}"] by simp
  have f: "first_tx_date [Some 86400, Some 253402300800] =
             Inr (Some (strftime_dmY (utc_date 86400)))"
    using r by (simp add: utcfromtimestamp_in_range)
  have b': "calculate_activity_metrics [Some 86400, Some 253402300800] = Inl ValueError"
    using b by simp
  have d: "active_weeks (process_wallet ?w2 ''W'' {}) = 0
           \<and> active_months (process_wallet ?w2 ''W'' {}) = 0"
    unfolding process_wallet_def Let_def
    by (simp add: pk2 ts2 f b' del: first_tx_date.simps) (simp add: initial_result_def)
  from a b c d show ?thesis by simp
qed


section \<open>Proofs: float rounding and TaskProgress\<close>

text \<open>The float model on 0.1, 0.2 and 0.3: the sum of the first two is not the third.\<close>

lemma float_examples:
  "to_float (1 / 10) = Finite (3602879701896397 / 36028797018963968)"
  "to_float (3 / 10) = Finite (5404319552844595 / 18014398509481984)"
  "fadd (to_float (1 / 10)) (to_float (2 / 10)) = Finite (1351079888211149 / 4503599627370496)"
  by code_simp+

lemma round_half_even_nonneg: "0 \<le> y \<Longrightarrow> 0 \<le> round_half_even y"
  by (simp add: round_half_even_def Let_def)

lemma round_half_even_le: "y \<le> of_int m \<Longrightarrow> round_half_even y \<le> m"
proof -
  assume le: "y \<le> of_int m"
  then have f: "\<lfloor>y\<rfloor> \<le> m" by (simp add: floor_le_iff) 
  show ?thesis
  proof (cases "\<lfloor>y\<rfloor> = m")
    case True
    then have "of_int m \<le> y" by (metis of_int_floor_le)
    with le have "y = of_int m" by simp
    then show ?thesis by (simp add: round_half_even_def Let_def)
  next
    case False
    with f have "\<lfloor>y\<rfloor> + 1 \<le> m" by simp
    then show ?thesis using f by (simp add: round_half_even_def Let_def)
  qed
qed

lemma exponent_up_nonneg: "0 \<le> exponent_up n x"
  by (induction n arbitrary: x) simp_all

lemma exponent_up_power: "1 \<le> x \<Longrightarrow> 2 ^ nat (exponent_up n x) \<le> x"
proof (induction n arbitrary: x)
  case 0
  then show ?case by simp
next
  case (Suc n)
  show ?case
  proof (cases "x < 2")
    case True
    with Suc.prems show ?thesis by simp
  next
    case False
    then have "1 \<le> x / 2" by simp
    then have "2 ^ nat (exponent_up n (x / 2)) \<le> x / 2" by (rule Suc.IH)
    then have "2 * 2 ^ nat (exponent_up n (x / 2)) \<le> x" by simp
    moreover have "nat (1 + exponent_up n (x / 2)) = Suc (nat (exponent_up n (x / 2)))"
      using exponent_up_nonneg [of n "x / 2"] by simp
    ultimately show ?thesis using False by simp
  qed
qed

lemma exponent_down_nonpos: "exponent_down n x \<le> 0"
proof (induction n arbitrary: x)
  case 0
  show ?case by simp
next
  case (Suc n)
  have "exponent_down n (2 * x) \<le> 0" by (rule Suc.IH)
  then show ?case by simp
qed

lemma double_exponent_le_52:
  assumes "x \<le> 2 ^ 52"
  shows "double_exponent x \<le> 52"
proof (cases "1 \<le> x")
  case True
  have "\<not> 52 < exponent_up 1024 x"
  proof
    assume "52 < exponent_up 1024 x"
    then have "53 \<le> nat (exponent_up 1024 x)" by simp
    then have "(2::rat) ^ 53 \<le> 2 ^ nat (exponent_up 1024 x)"
      by (intro power_increasing) simp_all
    also have "\<dots> \<le> x" by (rule exponent_up_power [OF True])
    finally show False using assms by simp
  qed
  with True show ?thesis by (simp add: double_exponent_def)
next
  case False
  then show ?thesis
    using exponent_down_nonpos [of 1022 x] by (simp add: double_exponent_def)
qed

lemma round_double_nonneg: "0 \<le> x \<Longrightarrow> 0 \<le> round_double x"
  by (simp add: round_double_def Let_def round_half_even_nonneg)

lemma round_double_le_int:
  assumes x: "0 \<le> x" and le: "x \<le> of_int k" and k: "of_int k \<le> (2::rat) ^ 52"
  shows "round_double x \<le> of_int k"
proof (cases "x = 0")
  case True
  with le show ?thesis by (simp add: round_double_def)
next
  case False
  with x have pos: "0 < x" by simp
  define e where "e = double_exponent x"
  define n where "n = nat (52 - e)"
  define u where "u = power_int (2::rat) (e - 52)"
  have e52: "e \<le> 52"
    unfolding e_def using le k by (intro double_exponent_le_52) simp
  have u: "u = inverse (2 ^ n)"
  proof (cases "e = 52")
    case True
    then show ?thesis by (simp add: u_def n_def)
  next
    case False
    with e52 have "e - 52 < 0" by simp
    then show ?thesis
      by (simp add: u_def n_def power_int_def power_one_over inverse_eq_divide)
  qed
  have upos: "0 < u" by (simp add: u)
  have "x / u = x * 2 ^ n" by (simp add: u divide_inverse)
  also have "\<dots> \<le> of_int k * 2 ^ n" using le by simp
  also have "\<dots> = of_int (k * 2 ^ n)" by simp
  finally have "round_half_even (x / u) \<le> k * 2 ^ n" by (rule round_half_even_le)
  then have "(of_int (round_half_even (x / u)) :: rat) \<le> of_int (k * 2 ^ n)"
    by (simp only: of_int_le_iff)
  then have "of_int (round_half_even (x / u)) * u \<le> of_int (k * 2 ^ n) * u"
    using upos by (simp add: mult_right_mono)
  also have "\<dots> = of_int k" by (simp add: u)
  finally have "of_int (round_half_even (x / u)) * u \<le> (of_int k :: rat)" .
  then show ?thesis
    using pos by (simp add: round_double_def Let_def e_def u_def)
qed

lemma to_float_bounded:
  assumes "0 \<le> x" "x \<le> of_int k" "of_int k \<le> (2::rat) ^ 52"
  shows "\<exists>r. to_float x = Finite r \<and> 0 \<le> r \<and> r \<le> of_int k"
proof -
  have a: "0 \<le> round_double x" using assms(1) by (rule round_double_nonneg)
  have b: "round_double x \<le> of_int k" using assms by (rule round_double_le_int)
  have "(2::rat) ^ 52 < DBL_OVERFLOW" by (simp add: DBL_OVERFLOW_def)
  with b assms(3) have c: "round_double x < DBL_OVERFLOW" by simp
  have "0 < DBL_OVERFLOW" by (simp add: DBL_OVERFLOW_def)
  with a have d: "\<not> round_double x \<le> - DBL_OVERFLOW" by simp
  from a b c d show ?thesis by (simp add: to_float_def Let_def)
qed

text \<open>
  A rational of magnitude \<open>2\<^sup>1\<^sup>0\<^sup>2\<^sup>4\<close> or more rounds to an infinity; no rational
  rounds to a NaN.
\<close>

lemma exponent_up_full: "2 ^ n \<le> x \<Longrightarrow> exponent_up n x = int n"
proof (induction n arbitrary: x)
  case 0
  show ?case by simp
next
  case (Suc n)
  have "(2::rat) \<le> 2 ^ Suc n" by (simp add: self_le_power)
  with Suc.prems have x2: "\<not> x < 2" by linarith
  from Suc.prems have "2 ^ n \<le> x / 2" by simp
  then have "exponent_up n (x / 2) = int n" by (rule Suc.IH)
  with x2 show ?case by simp
qed

lemma round_half_even_ge_floor: "\<lfloor>y\<rfloor> \<le> round_half_even y"
  by (simp add: round_half_even_def Let_def)

lemma DBL_OVERFLOW_power: "DBL_OVERFLOW = 2 ^ 1024"
  by (simp add: DBL_OVERFLOW_def)

lemma round_double_overflow:
  assumes "DBL_OVERFLOW \<le> x"
  shows "DBL_OVERFLOW \<le> round_double x"
proof -
  have x: "(2::rat) ^ 1024 \<le> x" using assms by (simp only: DBL_OVERFLOW_power)
  have "(1::rat) \<le> 2 ^ 1024" by (rule one_le_power) simp
  with x have x1: "1 \<le> x" by linarith
  then have pos: "0 < x" "x \<noteq> 0" "\<bar>x\<bar> = x" by simp_all
  have e: "double_exponent x = 1024"
    using x1 exponent_up_full [OF x] by (simp add: double_exponent_def)
  have u: "power_int (2::rat) (1024 - 52) = 2 ^ 972"
    by (simp add: power_int_def)
  have s: "(2::rat) ^ 1024 = 2 ^ 52 * 2 ^ 972"
    by (simp only: power_add [symmetric]) simp
  have "(2::rat) ^ 52 \<le> x / 2 ^ 972"
    using x by (simp only: s) (simp add: pos_le_divide_eq)
  then have "of_int (2 ^ 52) \<le> x / 2 ^ 972" by simp
  then have "(2::int) ^ 52 \<le> \<lfloor>x / 2 ^ 972\<rfloor>" by (simp only: le_floor_iff)
  then have "(2::int) ^ 52 \<le> round_half_even (x / 2 ^ 972)"
    using round_half_even_ge_floor [of "x / 2 ^ 972"] by linarith
  then have "(of_int (2 ^ 52) :: rat) \<le> of_int (round_half_even (x / 2 ^ 972))"
    by (simp only: of_int_le_iff)
  then have "(2::rat) ^ 52 * 2 ^ 972 \<le> of_int (round_half_even (x / 2 ^ 972)) * 2 ^ 972"
    by (intro mult_right_mono) simp_all
  then have "(2::rat) ^ 1024 \<le> of_int (round_half_even (x / 2 ^ 972)) * 2 ^ 972"
    by (simp only: s)
  moreover have "round_double x = of_int (round_half_even (x / 2 ^ 972)) * 2 ^ 972"
    using pos by (simp only: round_double_def Let_def e u) simp
  ultimately show ?thesis by (simp only: DBL_OVERFLOW_power)
qed

lemma to_float_overflow: "DBL_OVERFLOW \<le> x \<Longrightarrow> to_float x = PosInf"
  using round_double_overflow [of x] by (simp add: to_float_def Let_def)

lemma to_float_not_nan: "to_float x \<noteq> NaN"
  by (simp add: to_float_def Let_def)

lemma percent_only_overflow: "percent task = Inl e \<Longrightarrow> e = OverflowError"
proof (cases "total task \<le> 0")
  case True
  assume "percent task = Inl e"
  with True show ?thesis by (simp add: percent_def)
next
  case False
  assume p: "percent task = Inl e"
  from False have t: "total task \<noteq> 0" by simp
  show ?thesis
  proof (cases "to_float (of_int (current task) / of_int (total task))")
    case (Finite q)
    show ?thesis
      using False t Finite p to_float_not_nan [of "q * 100"]
      by (cases "to_float (q * 100)") (simp_all add: percent_def int_truediv_def)
  qed (use False t p in \<open>simp_all add: percent_def int_truediv_def\<close>)
qed

lemma percent_overflow:
  "0 < total task \<Longrightarrow> DBL_OVERFLOW \<le> of_int (current task) / of_int (total task) \<Longrightarrow>
   percent task = Inl OverflowError"
  by (simp add: percent_def int_truediv_def to_float_overflow)

lemma percent_in_range:
  assumes "0 \<le> current task" "current task \<le> total task" "0 < total task"
  shows "\<exists>p. percent task = Inr p \<and> 0 \<le> p \<and> p \<le> 100"
proof -
  let ?x = "(of_int (current task) / of_int (total task)) :: rat"
  have x0: "0 \<le> ?x" using assms by simp
  have x1: "?x \<le> of_int 1" using assms by (simp add: divide_le_eq)
  obtain q where q: "to_float ?x = Finite q" "0 \<le> q" "q \<le> 1"
    using to_float_bounded [OF x0 x1] by auto
  have y0: "0 \<le> q * 100" using q by simp
  have y1: "q * 100 \<le> of_int 100" using q by simp
  obtain r where r: "to_float (q * 100) = Finite r" "0 \<le> r" "r \<le> 100"
    using to_float_bounded [OF y0 y1] by auto
  have "\<lfloor>r\<rfloor> \<le> 100" using r by (simp add: floor_le_iff)
  moreover have "0 \<le> \<lfloor>r\<rfloor>" using r by simp
  moreover have "percent task = Inr \<lfloor>r\<rfloor>"
    using assms q r by (simp add: percent_def int_truediv_def)
  ultimately show ?thesis by simp
qed

lemma percent_no_zero_division: "percent task \<noteq> Inl ZeroDivisionError"
proof (cases "total task \<le> 0")
  case True
  then show ?thesis by (simp add: percent_def)
next
  case False
  then have t: "total task \<noteq> 0" by simp
  show ?thesis
  proof (cases "to_float (of_int (current task) / of_int (total task))")
    case (Finite q)
    show ?thesis
      using False t Finite
      by (cases "fmul (Finite q) (Finite 100)") (simp_all add: percent_def int_truediv_def)
  qed (use False t in \<open>simp_all add: percent_def int_truediv_def\<close>)
qed

text \<open>
  C10 (amended).  \<^verbatim>\<open>TaskProgress.percent\<close> returns 0 whenever \<^verbatim>\<open>total\<close> is
  not positive; whenever \<^verbatim>\<open>0 <= current <= total\<close> with a positive \<^verbatim>\<open>total\<close>
  it returns an integer between 0 and 100; in no state does it raise
  \<^verbatim>\<open>ZeroDivisionError\<close>; the one exception it can raise is
  \<^verbatim>\<open>OverflowError\<close>, and it does raise it when \<^verbatim>\<open>total\<close> is positive and the
  quotient \<^verbatim>\<open>current / total\<close> is \<open>2\<^sup>1\<^sup>0\<^sup>2\<^sup>4\<close> or more.
\<close>

theorem percent_spec:
  "(total task \<le> 0 \<longrightarrow> percent task = Inr 0)
   \<and> (0 \<le> current task \<and> current task \<le> total task \<and> 0 < total task \<longrightarrow>
        (\<exists>p. percent task = Inr p \<and> 0 \<le> p \<and> p \<le> 100))
   \<and> percent task \<noteq> Inl ZeroDivisionError
   \<and> (\<forall>e. percent task = Inl e \<longrightarrow> e = OverflowError)
   \<and> (0 < total task \<and> DBL_OVERFLOW \<le> of_int (current task) / of_int (total task) \<longrightarrow>
        percent task = Inl OverflowError)"
  using percent_in_range [of task] percent_no_zero_division [of task]
    percent_only_overflow [of task] percent_overflow [of task]
  by (simp add: percent_def)

lemma percent_example:
  "percent \<lparr>task_name = ''get_pool_fees'', current = 29, total = 100, status = Running\<rparr> = Inr 28"
  by code_simp

theorem percent_spec_witness:
  "percent \<lparr>task_name = ''get_pool_fees'', current = 0, total = 0, status = Idle\<rparr> = Inr 0
   \<and> (\<exists>p. percent \<lparr>task_name = ''get_pool_fees'', current = 29, total = 100, status = Running\<rparr>
             = Inr p \<and> 0 \<le> p \<and> p \<le> 100)
   \<and> percent \<lparr>task_name = ''get_pool_fees'', current = 29, total = 100, status = Running\<rparr>
       = Inr 28
   \<and> percent \<lparr>task_name = ''get_pool_fees'', current = 2 ^ 1024, total = 1, status = Running\<rparr>
       = Inl OverflowError"
proof -
  let ?big = "\<lparr>task_name = ''get_pool_fees'', current = 2 ^ 1024, total = 1, status = Running\<rparr>"
  have b: "0 < total ?big \<and> DBL_OVERFLOW \<le> of_int (current ?big) / of_int (total ?big)"
    by (simp add: DBL_OVERFLOW_def)
  have o: "percent ?big = Inl OverflowError"
    using percent_spec [of ?big] b by blast
  show ?thesis
    using percent_spec [of "\<lparr>task_name = ''get_pool_fees'', current = 0, total = 0, status = Idle\<rparr>"]
      percent_spec [of "\<lparr>task_name = ''get_pool_fees'', current = 29, total = 100,
                         status = Running\<rparr>"]
      percent_example o
    by simp
qed

text \<open>
  C10 as stated fails: \<^verbatim>\<open>percent\<close> is not total.  With \<^verbatim>\<open>current\<close> \<open>10\<^sup>4\<^sup>0\<^sup>0\<close>
  and \<^verbatim>\<open>total\<close> 1 the division raises \<^verbatim>\<open>OverflowError\<close>, and no integer is
  returned.
\<close>

theorem percent_counterexample:
  "percent \<lparr>task_name = ''get_pool_fees'', current = 10 ^ 400, total = 1, status = Running\<rparr>
     = Inl OverflowError"
  by (rule percent_overflow) (simp_all add: DBL_OVERFLOW_def)


section \<open>Proofs: asset ownership check\<close>

lemma creator_in_listed:
  "absent_or is_list v \<Longrightarrow> v = Some cs \<Longrightarrow> creator_in cs = Inr (creators_listed v)"
  by (cases cs) (simp_all add: creator_in_def)

lemma standard_creator_wf:
  "wf_asset item \<Longrightarrow> standard_creator item = Inr (top_creator item)"
proof (cases item)
  case (JObj kvs)
  assume "wf_asset item"
  with JObj have l: "absent_or is_list (map_of kvs ''creators'')" by simp
  show ?thesis
  proof (cases "map_of kvs ''creators''")
    case None
    with JObj show ?thesis by (simp add: standard_creator_def top_creator_def)
  next
    case (Some cs)
    with JObj creator_in_listed [OF l Some] show ?thesis
      by (simp add: standard_creator_def top_creator_def)
  qed
qed simp_all

lemma content_creator_wf:
  "wf_asset item \<Longrightarrow> content_creator item = Inr (nested_creator item)"
proof (cases item)
  case (JObj kvs)
  assume wf: "wf_asset item"
  show ?thesis
  proof (cases "map_of kvs ''content''")
    case None
    with JObj show ?thesis by (simp add: content_creator_def nested_creator_def)
  next
    case (Some c)
    with wf JObj have "wf_content c" by simp
    then obtain ckvs where c: "c = JObj ckvs"
      and l: "absent_or is_list (map_of ckvs ''creators'')"
      by (cases c) simp_all
    show ?thesis
    proof (cases "map_of ckvs ''creators''")
      case None
      with JObj Some c show ?thesis by (simp add: content_creator_def nested_creator_def)
    next
      case (Some cs)
      with JObj \<open>map_of kvs ''content'' = Some c\<close> c creator_in_listed [OF l Some]
      show ?thesis by (simp add: content_creator_def nested_creator_def)
    qed
  qed
qed simp_all

lemma is_strE: "is_str v \<Longrightarrow> (\<And>s. v = JStr s \<Longrightarrow> P) \<Longrightarrow> P"
  by (cases v) simp_all

lemma is_listE: "is_list v \<Longrightarrow> (\<And>xs. v = JArr xs \<Longrightarrow> P) \<Longrightarrow> P"
  by (cases v) simp_all

lemma wf_metadataE:
  "wf_metadata m \<Longrightarrow>
   (\<And>kvs. m = JObj kvs \<Longrightarrow> absent_or is_str (map_of kvs ''name'') \<Longrightarrow> P) \<Longrightarrow> P"
  by (cases m) simp_all

lemma wf_contentE:
  "wf_content c \<Longrightarrow>
   (\<And>kvs. c = JObj kvs \<Longrightarrow> absent_or is_list (map_of kvs ''creators'') \<Longrightarrow>
      absent_or is_str (map_of kvs ''name'') \<Longrightarrow>
      absent_or wf_metadata (map_of kvs ''metadata'') \<Longrightarrow> P) \<Longrightarrow> P"
  by (cases c) simp_all

lemma wf_assetE:
  "wf_asset item \<Longrightarrow>
   (\<And>kvs. item = JObj kvs \<Longrightarrow> absent_or is_list (map_of kvs ''creators'') \<Longrightarrow>
      absent_or is_str (map_of kvs ''name'') \<Longrightarrow>
      absent_or wf_content (map_of kvs ''content'') \<Longrightarrow> P) \<Longrightarrow> P"
  by (cases item) simp_all

lemma name_standard_wf:
  "wf_asset item \<Longrightarrow>
   name_standard item =
     Inr (case obj_field item ''content'' of
            Some content \<Rightarrow>
              (case obj_field content ''metadata'' of
                 Some metadata \<Rightarrow> name_holds (obj_field metadata ''name'')
               | None \<Rightarrow> False)
          | None \<Rightarrow> False)"
  by (erule wf_assetE)
     (auto simp: name_standard_def split: option.splits
           elim!: wf_contentE wf_metadataE is_strE)

lemma name_direct_wf:
  "wf_asset item \<Longrightarrow> name_direct item = Inr (name_holds (obj_field item ''name''))"
  by (erule wf_assetE)
     (auto simp: name_direct_def split: option.splits elim!: is_strE)

lemma name_content_wf:
  "wf_asset item \<Longrightarrow>
   name_content item =
     Inr (case obj_field item ''content'' of
            Some content \<Rightarrow> name_holds (obj_field content ''name'')
          | None \<Rightarrow> False)"
  by (erule wf_assetE)
     (auto simp: name_content_def split: option.splits elim!: wf_contentE is_strE)

lemma name_match_wf: "wf_asset item \<Longrightarrow> name_match item = Inr (name_found item)"
  by (simp add: name_match_def name_found_def name_standard_wf name_direct_wf name_content_wf)

lemma keyword_in_content_wf:
  "wf_asset item \<Longrightarrow> keyword_in_content lower item = Inr (keyword_found lower item)"
  by (erule wf_assetE)
     (auto simp: keyword_in_content_def keyword_found_def split: option.splits)

lemma creator_found_wf:
  "wf_asset item \<Longrightarrow> creator_found item = Inr (top_creator item \<or> nested_creator item)"
  by (simp add: creator_found_def standard_creator_wf content_creator_wf)

lemma item_match_wf:
  "wf_asset item \<Longrightarrow>
   item_match lower item =
     Inr ((top_creator item \<or> nested_creator item)
          \<and> (name_found item \<or> keyword_found lower item))"
  by (auto simp: item_match_def creator_found_wf name_match_wf keyword_in_content_wf)

lemma first_pass_wf:
  "list_all wf_asset items \<Longrightarrow>
   first_pass lower items =
     Inr (list_ex (\<lambda>i. (top_creator i \<or> nested_creator i)
                        \<and> (name_found i \<or> keyword_found lower i)) items)"
  by (induction items) (auto simp: item_match_wf)

lemma fallback_pass_wf:
  "list_all wf_asset items \<Longrightarrow> fallback_pass items = Inr (list_ex top_creator items)"
  by (induction items) (auto simp: standard_creator_wf)

lemma certificate_two_passes:
  "certificate lower items =
     (list_ex (\<lambda>i. (top_creator i \<or> nested_creator i)
                   \<and> (name_found i \<or> keyword_found lower i)) items
      \<or> list_ex top_creator items)"
  unfolding certificate_def list_ex_iff by blast

lemma response_itemsE:
  "response_items data = Some items \<Longrightarrow>
   (\<And>kvs rkvs. data = JObj kvs \<Longrightarrow> map_of kvs ''error'' = None \<Longrightarrow>
      map_of kvs ''result'' = Some (JObj rkvs) \<Longrightarrow>
      map_of rkvs ''items'' = Some (JArr items) \<Longrightarrow> list_all wf_asset items \<Longrightarrow> P) \<Longrightarrow> P"
proof -
  assume r: "response_items data = Some items"
    and p: "\<And>kvs rkvs. data = JObj kvs \<Longrightarrow> map_of kvs ''error'' = None \<Longrightarrow>
      map_of kvs ''result'' = Some (JObj rkvs) \<Longrightarrow>
      map_of rkvs ''items'' = Some (JArr items) \<Longrightarrow> list_all wf_asset items \<Longrightarrow> P"
  from r obtain kvs where d: "data = JObj kvs"
    by (cases data) (simp_all add: response_items_def)
  from r d have e: "map_of kvs ''error'' = None"
    by (simp add: response_items_def split: option.splits)
  from r d e obtain res where res: "map_of kvs ''result'' = Some res"
    by (cases "map_of kvs ''result''") (simp_all add: response_items_def)
  from r d e res obtain rkvs where rk: "res = JObj rkvs"
    by (cases res) (simp_all add: response_items_def)
  from r d e res rk have i: "map_of rkvs ''items'' = Some (JArr items)"
    and w: "list_all wf_asset items"
    by (auto simp: response_items_def split: option.splits json.splits if_splits)
  from res rk have res': "map_of kvs ''result'' = Some (JObj rkvs)" by simp
  show P by (rule p [OF d e res' i w])
qed

lemma debug_first_item_wf:
  "response_items data = Some items \<Longrightarrow> debug_first_item data = Inr ()"
proof (erule response_itemsE)
  fix kvs rkvs
  assume d: "data = JObj kvs" "map_of kvs ''error'' = None"
    "map_of kvs ''result'' = Some (JObj rkvs)" "map_of rkvs ''items'' = Some (JArr items)"
    and wf: "list_all wf_asset items"
  show "debug_first_item data = Inr ()"
  proof (cases items)
    case Nil
    with d show ?thesis by (simp add: debug_first_item_def)
  next
    case (Cons first_item rest)
    with wf have "wf_asset first_item" by simp
    then show ?thesis
      using d Cons
      by (elim wf_assetE)
         (auto simp: debug_first_item_def split: option.splits
               elim!: wf_contentE wf_metadataE)
  qed
qed

lemma attempt_body_wf:
  "response_items data = Some items \<Longrightarrow>
   attempt_body lower data = Inr (if certificate lower items then Found else NotFound)"
proof -
  assume r: "response_items data = Some items"
  have dbg: "debug_first_item data = Inr ()" using r by (rule debug_first_item_wf)
  from r show ?thesis
  proof (rule response_itemsE)
    fix kvs rkvs
    assume d: "data = JObj kvs" "map_of kvs ''error'' = None"
      "map_of kvs ''result'' = Some (JObj rkvs)" "map_of rkvs ''items'' = Some (JArr items)"
      and wf: "list_all wf_asset items"
    show ?thesis
      using dbg d
      by (simp add: attempt_body_def first_pass_wf [OF wf] fallback_pass_wf [OF wf]
            certificate_two_passes)
  qed
qed

lemma cnft_attempt_wf:
  "response_items data = Some items \<Longrightarrow>
   cnft_attempt lower (Inr data) = Inr (if certificate lower items then Found else NotFound)"
  by (simp add: cnft_attempt_def attempt_body_wf)

lemma cnft_attempt_request_exception:
  "cnft_attempt lower (Inl RequestException) = Inr Retry"
  by (simp add: cnft_attempt_def except_clauses_def)

lemma cnft_attempt_error_payload:
  "map_of kvs ''error'' = Some (JObj e) \<Longrightarrow> map_of kvs ''result'' = None \<Longrightarrow>
   cnft_attempt lower (Inr (JObj kvs)) = Inr Retry"
  by (simp add: cnft_attempt_def attempt_body_def debug_first_item_def)

lemma check_cnft_loop_retries:
  "\<forall>i<k. cnft_attempt lower (post (j + i) addr) = Inr Retry \<Longrightarrow> j + k < max_retries \<Longrightarrow>
   post (j + k) addr = Inr data \<Longrightarrow> response_items data = Some items \<Longrightarrow>
   check_cnft_loop lower post addr j = Inr (certificate lower items)"
proof (induction k arbitrary: j)
  case 0
  then show ?case
    by (subst check_cnft_loop.simps) (simp add: cnft_attempt_wf)
next
  case (Suc k)
  have first: "cnft_attempt lower (post j addr) = Inr Retry" using Suc.prems(1) by force
  have rest: "\<forall>i<k. cnft_attempt lower (post (Suc j + i) addr) = Inr Retry"
    using Suc.prems(1) by force
  have "check_cnft_loop lower post addr (Suc j) = Inr (certificate lower items)"
    using rest Suc.prems(2,3,4) by (intro Suc.IH) simp_all
  moreover have "j < max_retries" using Suc.prems(2) by simp
  ultimately show ?case
    by (subst check_cnft_loop.simps) (simp add: first)
qed

lemma check_cnft_loop_exhausted:
  "\<forall>i<max_retries. cnft_attempt lower (post i addr) = Inr Retry \<Longrightarrow>
   j \<le> max_retries \<Longrightarrow> check_cnft_loop lower post addr j = Inr False"
proof (induction "max_retries - j" arbitrary: j)
  case 0
  then show ?case by (subst check_cnft_loop.simps) simp
next
  case (Suc n)
  then have lt: "j < max_retries" by simp
  then have r: "cnft_attempt lower (post j addr) = Inr Retry" using Suc.prems(1) by simp
  have "check_cnft_loop lower post addr (j + 1) = Inr False"
    using Suc by (intro Suc.hyps) simp_all
  then show ?case
    by (subst check_cnft_loop.simps) (simp add: lt r)
qed

lemma any_id_wf:
  "list_all wf_asset items \<Longrightarrow> any_id items = Inr (list_ex has_mint_id items)"
proof (induction items)
  case Nil
  show ?case by simp
next
  case (Cons item items)
  then have "wf_asset item" by simp
  then obtain kvs where "item = JObj kvs" by (rule wf_assetE)
  with Cons show ?case
    by (auto simp: has_mint_id_def split: option.splits)
qed

lemma check_cnft_wf:
  "post addr = Inr data \<Longrightarrow> response_items data = Some items \<Longrightarrow>
   check_cnft post addr = list_ex has_mint_id items"
  by (erule response_itemsE) (simp add: check_cnft_def any_id_wf)

text \<open>
  C2 (amended).  When the attempts before it end in a retry (a request failure or an
  error payload), and a response of the documented shape arrives within the three
  attempts, the bot's check reports the
  certificate exactly when some asset has a creator entry with the fixed address in its
  top-level \<^verbatim>\<open>creators\<close> list, or has such an entry under \<^verbatim>\<open>content\<close>
  together with the fixed name in one of its name fields or the keyword in the
  lower-cased text of its content; when all three attempts end in a retry it reports none.
  \<^verbatim>\<open>check_cnft\<close> of \<^verbatim>\<open>meteora.py\<close> reports the certificate exactly when some
  asset of the response has the fixed mint address as its id.
\<close>

theorem check_cnft_v3_spec:
  "(k < max_retries \<and> (\<forall>i<k. cnft_attempt lower (post i addr) = Inr Retry)
      \<and> post k addr = Inr data \<and> response_items data = Some items
    \<longrightarrow> check_cnft_v3 lower post addr = Inr (certificate lower items))
   \<and> ((\<forall>i<max_retries. cnft_attempt lower (post i addr) = Inr Retry)
    \<longrightarrow> check_cnft_v3 lower post addr = Inr False)
   \<and> cnft_attempt lower (Inl RequestException) = Inr Retry
   \<and> (\<forall>kvs e. map_of kvs ''error'' = Some (JObj e) \<and> map_of kvs ''result'' = None
        \<longrightarrow> cnft_attempt lower (Inr (JObj kvs)) = Inr Retry)
   \<and> (post0 addr = Inr data \<and> response_items data = Some items
    \<longrightarrow> check_cnft post0 addr = list_ex has_mint_id items)"
  using check_cnft_loop_retries [of k lower post 0 addr data items]
    check_cnft_loop_exhausted [of lower post addr 0]
    check_cnft_wf [of post0 addr data items]
    cnft_attempt_request_exception [of lower] cnft_attempt_error_payload [of _ _ lower]
  by (simp add: check_cnft_v3_def)

lemma example_certificates:
  "certificate example_lower [asset_keyword_only, asset_nested_creator_keyword] = True"
  "certificate example_lower [asset_keyword_only] = False"
  "certificate example_lower [asset_nested_creator_only] = False"
  "claimed_certificate example_lower [asset_keyword_only] = True"
  "claimed_certificate example_lower [asset_nested_creator_only] = True"
  by code_simp+

lemma example_responses:
  "response_items (asset_response [asset_keyword_only, asset_nested_creator_keyword]) =
     Some [asset_keyword_only, asset_nested_creator_keyword]"
  "response_items (asset_response [asset_keyword_only]) = Some [asset_keyword_only]"
  "response_items (asset_response [asset_nested_creator_only]) = Some [asset_nested_creator_only]"
  by code_simp+

lemma example_certificate_asset: "response_items (asset_response [asset_certificate]) = Some [asset_certificate]"
  "claimed_certificate example_lower [asset_certificate] = True"
  "certificate example_lower [asset_certificate] = True"
  "list_ex has_mint_id [asset_certificate] = False"
  by code_simp+

theorem check_cnft_v3_spec_witness:
  "check_cnft_v3 example_lower
     (\<lambda>n a. if n = 0 then Inl RequestException
            else Inr (asset_response [asset_keyword_only, asset_nested_creator_keyword])) ''W''
     = Inr True
   \<and> check_cnft_v3 example_lower (\<lambda>n a. Inl RequestException) ''W'' = Inr False"
proof -
  let ?post = "\<lambda>(n::nat) (a::string). if n = 0 then Inl RequestException
            else Inr (asset_response [asset_keyword_only, asset_nested_creator_keyword])"
  have a: "(1::nat) < max_retries
      \<and> (\<forall>i<1. cnft_attempt example_lower (?post i ''W'') = Inr Retry)
      \<and> ?post 1 ''W'' = Inr (asset_response [asset_keyword_only, asset_nested_creator_keyword])
      \<and> response_items (asset_response [asset_keyword_only, asset_nested_creator_keyword])
          = Some [asset_keyword_only, asset_nested_creator_keyword]"
    by (simp add: max_retries_def example_responses cnft_attempt_request_exception)
  have b: "\<forall>i<max_retries. cnft_attempt example_lower
             ((\<lambda>(n::nat) (a::string). Inl RequestException :: py_error + json) i ''W'')
             = Inr Retry"
    by (simp add: cnft_attempt_request_exception)
  note s1 = check_cnft_v3_spec [where k = 1 and post = ?post and addr = "''W''"
      and data = "asset_response [asset_keyword_only, asset_nested_creator_keyword]"
      and items = "[asset_keyword_only, asset_nested_creator_keyword]"
      and lower = example_lower]
  note s2 = check_cnft_v3_spec [where post = "\<lambda>n a. Inl RequestException" and addr = "''W''"
      and lower = example_lower]
  from s1 a have r1: "check_cnft_v3 example_lower ?post ''W'' =
      Inr (certificate example_lower [asset_keyword_only, asset_nested_creator_keyword])"
    by blast
  from s2 b have r2: "check_cnft_v3 example_lower (\<lambda>n a. Inl RequestException) ''W'' = Inr False"
    by blast
  from r1 r2 show ?thesis by (simp add: example_certificates)
qed

text \<open>
  C2 as stated fails.  An asset with the keyword in its content and no creator, and an
  asset whose only match is the creator under \<^verbatim>\<open>content\<close>, both satisfy the
  claim's condition; the bot reports no certificate for either.  And the certificate
  itself, under an id other than the mint address, is not found by \<^verbatim>\<open>meteora.py\<close>.
\<close>

theorem check_cnft_v3_counterexample:
  "claimed_certificate example_lower [asset_keyword_only]
   \<and> check_cnft_v3 example_lower (\<lambda>n a. Inr (asset_response [asset_keyword_only])) ''W''
       = Inr False
   \<and> claimed_certificate example_lower [asset_nested_creator_only]
   \<and> check_cnft_v3 example_lower (\<lambda>n a. Inr (asset_response [asset_nested_creator_only])) ''W''
       = Inr False
   \<and> claimed_certificate example_lower [asset_certificate]
   \<and> check_cnft (\<lambda>a. Inr (asset_response [asset_certificate])) ''W'' = False"
proof -
  have c: "check_cnft (\<lambda>a. Inr (asset_response [asset_certificate])) ''W'' = False"
    using check_cnft_wf [of "\<lambda>a. Inr (asset_response [asset_certificate])" "''W''"
                            "asset_response [asset_certificate]" "[asset_certificate]"]
    by (simp only: example_certificate_asset)
  have a: "check_cnft_v3 example_lower (\<lambda>n a. Inr (asset_response [asset_keyword_only])) ''W''
       = Inr (certificate example_lower [asset_keyword_only])"
    unfolding check_cnft_v3_def
    by (rule check_cnft_loop_retries
          [where k = 0 and data = "asset_response [asset_keyword_only]"])
       (simp_all add: max_retries_def example_responses)
  have b: "check_cnft_v3 example_lower (\<lambda>n a. Inr (asset_response [asset_nested_creator_only])) ''W''
       = Inr (certificate example_lower [asset_nested_creator_only])"
    unfolding check_cnft_v3_def
    by (rule check_cnft_loop_retries
          [where k = 0 and data = "asset_response [asset_nested_creator_only]"])
       (simp_all add: max_retries_def example_responses)
  show ?thesis
    using a b c by (simp add: example_certificates example_certificate_asset)
qed

lemma attempt_body_null_name:
  "attempt_body example_lower (asset_response [asset_null_name]) = Inl TypeError"
  by code_simp

text \<open>
  C6 fails on the bot.  When the first asset of the response has a null metadata name,
  the name test raises \<^verbatim>\<open>TypeError\<close>; the handler clause that names
  \<^verbatim>\<open>json.JSONDecodeError\<close> raises \<^verbatim>\<open>NameError\<close>; \<^verbatim>\<open>check_cnft\<close> and
  then \<^verbatim>\<open>process\<close> end with that exception, and no record is returned.
\<close>

theorem process_v3_name_error:
  "process_v3 (world_assets (\<lambda>n. Inr (asset_response [asset_null_name]))) ''W'' {} = Inl NameError"
proof -
  have "cnft_attempt example_lower (Inr (asset_response [asset_null_name])) = Inl NameError"
    by (simp add: cnft_attempt_def attempt_body_null_name except_clauses_def)
  then have "check_cnft_v3 example_lower (\<lambda>n a. Inr (asset_response [asset_null_name])) ''W''
               = Inl NameError"
    unfolding check_cnft_v3_def
    by (subst check_cnft_loop.simps) (simp add: max_retries_def)
  then show ?thesis
    by (simp add: process_v3_def world_assets_def)
qed

text \<open>
  \<^verbatim>\<open>process_wallet\<close> of \<^verbatim>\<open>meteora.py\<close> returns a record for the wallet in
  every world, with the results of the two checks that run first.
\<close>

lemma process_wallet_checks:
  "wallet (process_wallet w addr bl) = addr
   \<and> blacklist (process_wallet w addr bl) = (addr \<in> bl)
   \<and> cnft (process_wallet w addr bl) = check_cnft (post_assets w) addr"
  by (simp add: process_wallet_def Let_def initial_result_def fee_loop_other
           split: sum.splits option.splits prod.splits)

end
